theory Spec2Isabelle
  imports Main
begin

section \<open>Session tokens: the codec of \<open>lib/utils/jwt-server\<close>\<close>

text \<open>
  Times are milliseconds since the epoch, as \<open>Date.now()\<close> gives them; a token's
  \<open>iat\<close> and \<open>exp\<close> are seconds, as the \<open>jsonwebtoken\<close> package writes them.

  The payload handed to \<open>jwt.sign\<close> is a JavaScript object whose values are strings
  or \<open>null\<close>: an association list in the order of the object literal, \<open>None\<close> for
  \<open>null\<close>, a key that is \<open>undefined\<close> left out (JSON drops it).
\<close>

type_synonym claims = "(string \<times> string option) list"

text \<open>
  The decoded content of a token: the payload and the registered claims that
  \<open>jwt.sign\<close> adds (\<open>iat\<close> always, the others when the option is given).
\<close>

record jws_body =
  custom :: claims
  iat :: nat
  exp :: "nat option"
  aud :: "string option"
  iss :: "string option"

text \<open>
  Modelled from the spec: the \<open>jsonwebtoken\<close> package (\<open>jwt.sign\<close>,
  \<open>jwt.verify\<close>) is an external dependency whose code is not in the repository.
  Its compact serialisation and its HMAC are symbolic: a token string is either no JWS
  at all (\<open>Malformed\<close>) or carries a body and a signature, and a signature is the
  pair of the key and the body it was computed from. Verifying recomputes the signature
  and compares.
\<close>

datatype signature = HMAC string jws_body

datatype token = Malformed string | Compact jws_body signature

definition registered_clash :: "claims \<Rightarrow> nat option \<Rightarrow> string option \<Rightarrow> string option \<Rightarrow> bool" where
  "registered_clash payload expiresIn audience issuer =
     ((expiresIn \<noteq> None \<and> map_of payload ''exp'' \<noteq> None) \<or>
      (audience \<noteq> None \<and> map_of payload ''aud'' \<noteq> None) \<or>
      (issuer \<noteq> None \<and> map_of payload ''iss'' \<noteq> None))"

text \<open>
  Modelled from the spec: \<open>jwt.sign(payload, secret, {expiresIn, audience, issuer})\<close>
  of the \<open>jsonwebtoken\<close> package (not in the repository) at clock \<open>now\<close>;
  \<open>None\<close> is a thrown error (an empty secret, or a payload that already has a claim
  the options set).
\<close>

definition jwt_sign ::
  "claims \<Rightarrow> string \<Rightarrow> nat option \<Rightarrow> string option \<Rightarrow> string option \<Rightarrow> nat \<Rightarrow> token option" where
  "jwt_sign payload secret expiresIn audience issuer now =
     (if secret = [] then None
      else if registered_clash payload expiresIn audience issuer then None
      else
        let body = \<lparr>custom = payload, iat = now div 1000,
                     exp = map_option (\<lambda>d. now div 1000 + d) expiresIn,
                     aud = audience, iss = issuer\<rparr>
        in Some (Compact body (HMAC secret body)))"

text \<open>
  Modelled from the spec: \<open>jwt.verify(token, secret, {audience, issuer})\<close> of the
  \<open>jsonwebtoken\<close> package (not in the repository) at clock \<open>now\<close>; \<open>None\<close> is a
  thrown error. The checks run in the package's order: shape, signature, expiry,
  audience, issuer.
\<close>

definition jwt_verify ::
  "token \<Rightarrow> string \<Rightarrow> string option \<Rightarrow> string option \<Rightarrow> nat \<Rightarrow> jws_body option" where
  "jwt_verify tok secret audience issuer now =
     (case tok of
        Malformed _ \<Rightarrow> None
      | Compact body sg \<Rightarrow>
          if secret = [] then None
          else if sg \<noteq> HMAC secret body then None
          else if (case exp body of Some e \<Rightarrow> e \<le> now div 1000 | None \<Rightarrow> False) then None
          else if (case audience of Some a \<Rightarrow> aud body \<noteq> Some a | None \<Rightarrow> False) then None
          else if (case issuer of Some i \<Rightarrow> iss body \<noteq> Some i | None \<Rightarrow> False) then None
          else Some body)"

text \<open>
  The argument of \<open>signJWT\<close>: \<open>Omit<JWTPayload, "iat" | "exp">\<close> with \<open>name\<close>,
  \<open>provider\<close> and \<open>photoURL\<close> optional; \<open>name\<close> and \<open>photoURL\<close> may also be
  \<open>null\<close> (\<open>Some None\<close>).
\<close>

record JWTPayload =
  p_uid :: string
  p_email :: string
  p_name :: "string option option"
  p_provider :: "string option"
  p_photoURL :: "string option option"
  p_sessionId :: string

definition optional :: "string \<Rightarrow> string option option \<Rightarrow> claims" where
  "optional k v = (case v of None \<Rightarrow> [] | Some x \<Rightarrow> [(k, x)])"

definition payload_claims :: "JWTPayload \<Rightarrow> claims" where
  "payload_claims p =
     [(''uid'', Some (p_uid p)), (''email'', Some (p_email p))] @
     optional ''name'' (p_name p) @
     optional ''provider'' (map_option Some (p_provider p)) @
     optional ''photoURL'' (p_photoURL p) @
     [(''sessionId'', Some (p_sessionId p))]"

definition JWT_EXPIRES_IN :: nat where
  "JWT_EXPIRES_IN = 7 * 24 * 60 * 60"

definition JWT_ISSUER :: string where
  "JWT_ISSUER = ''firebase-auth-app''"

definition JWT_AUDIENCE :: string where
  "JWT_AUDIENCE = ''firebase-auth-app-users''"

definition signJWT :: "string \<Rightarrow> nat \<Rightarrow> JWTPayload \<Rightarrow> token option" where
  "signJWT JWT_SECRET now payload =
     jwt_sign (payload_claims payload) JWT_SECRET (Some JWT_EXPIRES_IN)
       (Some JWT_AUDIENCE) (Some JWT_ISSUER) now"

definition verifyJWT :: "string \<Rightarrow> nat \<Rightarrow> token \<Rightarrow> jws_body option" where
  "verifyJWT JWT_SECRET now tok =
     jwt_verify tok JWT_SECRET (Some JWT_AUDIENCE) (Some JWT_ISSUER) now"

definition getJWTExpiration :: "nat \<Rightarrow> nat" where
  "getJWTExpiration now = now + 7 * 24 * 60 * 60 * 1000"

text \<open>Reading a claim of a decoded payload: \<open>None\<close> when it is absent or \<open>null\<close>.\<close>

definition claim :: "jws_body \<Rightarrow> string \<Rightarrow> string option" where
  "claim payload k = (case map_of (custom payload) k of Some (Some v) \<Rightarrow> Some v | _ \<Rightarrow> None)"

subsection \<open>The first 72 bytes of a token\<close>

text \<open>
  Modelled from the spec: the serialisation of a token is the work of the
  \<open>jsonwebtoken\<close> package, which is not in the repository. The string is
  \<open>base64url(header).base64url(payload).base64url(signature)\<close>, the payload being
  \<open>JSON.stringify\<close> of the claims: the payload's members in their order, then
  \<open>iat\<close>, \<open>exp\<close>, \<open>aud\<close> and \<open>iss\<close>. Strings stand for their UTF-8 bytes.
\<close>

fun decimal :: "nat \<Rightarrow> string" where
  "decimal n =
     (if n < 10 then [''0123456789'' ! n]
      else decimal (n div 10) @ [''0123456789'' ! (n mod 10)])"

declare decimal.simps [simp del]

definition json_escape :: "char \<Rightarrow> string" where
  "json_escape c =
     (if c = CHR 0x22 then [CHR 0x5C, CHR 0x22]
      else if c = CHR 0x5C then [CHR 0x5C, CHR 0x5C]
      else if c = CHR 0x08 then [CHR 0x5C, CHR ''b'']
      else if c = CHR 0x09 then [CHR 0x5C, CHR ''t'']
      else if c = CHR 0x0A then [CHR 0x5C, CHR ''n'']
      else if c = CHR 0x0C then [CHR 0x5C, CHR ''f'']
      else if c = CHR 0x0D then [CHR 0x5C, CHR ''r'']
      else if (of_char c :: nat) < 32
      then [CHR 0x5C, CHR ''u'', CHR ''0'', CHR ''0'',
            ''0123456789abcdef'' ! (of_char c div 16), ''0123456789abcdef'' ! (of_char c mod 16)]
      else [c])"

definition json_string :: "string \<Rightarrow> string" where
  "json_string s = [CHR 0x22] @ concat (map json_escape s) @ [CHR 0x22]"

definition json_member :: "string \<times> string option \<Rightarrow> string" where
  "json_member m =
     json_string (fst m) @ '':'' @ (case snd m of None \<Rightarrow> ''null'' | Some v \<Rightarrow> json_string v)"

definition registered_members :: "jws_body \<Rightarrow> string list" where
  "registered_members b =
     [json_string ''iat'' @ '':'' @ decimal (iat b)] @
     (case exp b of None \<Rightarrow> [] | Some e \<Rightarrow> [json_string ''exp'' @ '':'' @ decimal e]) @
     (case aud b of None \<Rightarrow> [] | Some a \<Rightarrow> [json_string ''aud'' @ '':'' @ json_string a]) @
     (case iss b of None \<Rightarrow> [] | Some i \<Rightarrow> [json_string ''iss'' @ '':'' @ json_string i])"

fun join :: "string list \<Rightarrow> string" where
  "join [] = []"
| "join [x] = x"
| "join (x # y # ys) = x @ '','' @ join (y # ys)"

definition json_text :: "jws_body \<Rightarrow> string" where
  "json_text b = ''{'' @ join (map json_member (custom b) @ registered_members b) @ ''}''"

text \<open>
  Modelled from the spec: \<open>bcryptjs\<close> is an external package, and it reads no more
  than the first 72 bytes of the string it hashes or compares. The header of a token
  is the constant \<open>{"alg":"HS256","typ":"JWT"}\<close>, 36 characters in base64url; with the
  dot, 35 characters of the payload remain, which are 26 bytes of its JSON text and the
  two high bits of the next byte (\<open>Head\<close>; no bits when the text ends there). A
  payload shorter than 26 bytes lets characters of the signature in: the whole token
  stands for them (\<open>Whole\<close>). Of a string that is no token the first 72 bytes are
  read (\<open>Bytes\<close>).
\<close>

datatype prefix72 = Bytes string | Head string nat | Whole jws_body signature

definition first72 :: "token \<Rightarrow> prefix72" where
  "first72 tok =
     (case tok of
        Malformed m \<Rightarrow> Bytes (take 72 m)
      | Compact b sg \<Rightarrow>
          let j = json_text b
          in if length j < 26 then Whole b sg
             else Head (take 26 j)
                    (case drop 26 j of [] \<Rightarrow> 0 | c # _ \<Rightarrow> of_char c div 64))"

section \<open>Reset tokens: \<open>lib/services/reset-token-service.ts\<close>\<close>

definition TOKEN_EXPIRY :: nat where
  "TOKEN_EXPIRY = 60 * 60"

definition generateResetToken :: "string \<Rightarrow> nat \<Rightarrow> string \<Rightarrow> string \<Rightarrow> token option" where
  "generateResetToken JWT_SECRET now userId email =
     jwt_sign [(''userId'', Some userId), (''email'', Some email), (''type'', Some ''password_reset'')]
       JWT_SECRET (Some TOKEN_EXPIRY) None None now"

definition verifyResetToken :: "string \<Rightarrow> nat \<Rightarrow> token \<Rightarrow> jws_body option" where
  "verifyResetToken JWT_SECRET now tok =
     (case jwt_verify tok JWT_SECRET None None now of
        None \<Rightarrow> None
      | Some decoded \<Rightarrow>
          if map_of (custom decoded) ''type'' \<noteq> Some (Some ''password_reset'') then None
          else Some decoded)"

definition isTokenValid :: "string \<Rightarrow> nat \<Rightarrow> token \<Rightarrow> bool" where
  "isTokenValid JWT_SECRET now tok = (verifyResetToken JWT_SECRET now tok \<noteq> None)"

section \<open>The credential store: \<open>lib/database/models/user\<close>\<close>

datatype provider = Email | Google | Github

record SessionRecord =
  tokenHash :: string
  issuedAt :: nat
  expiresAt :: nat
  userAgent :: "string option"
  ip :: "string option"

text \<open>A user document; \<open>oid\<close> is MongoDB's \<open>_id\<close>.\<close>

record User =
  oid :: string
  uid :: string
  email :: string
  name :: "string option"
  provider :: provider
  photoURL :: "string option"
  createdAt :: nat
  lastSeen :: nat
  sessions :: "SessionRecord list"

text \<open>
  The external collaborators, taken as parameters: Firebase Admin's
  \<open>adminAuth.verifyIdToken\<close> (\<open>Inl\<close> is the message of the error it throws),
  \<open>bcrypt.hash\<close> with the salt it draws, \<open>bcrypt.compareSync\<close>, and the mail
  sender behind \<open>EmailService.sendPasswordResetEmail\<close>. The two functions of
  \<open>bcryptjs\<close> are functions of the first 72 bytes of their string.
\<close>

record DecodedIdToken =
  t_uid :: string
  t_email :: "string option"
  t_name :: "string option"
  t_picture :: "string option"
  sign_in_provider :: "string option"

record ext =
  adminAuth_verifyIdToken :: "string \<Rightarrow> string + DecodedIdToken"
  bcrypt_hash :: "prefix72 \<Rightarrow> string \<Rightarrow> string"
  bcrypt_compareSync :: "prefix72 \<Rightarrow> string \<Rightarrow> bool"
  sendPasswordResetEmail :: "string \<Rightarrow> token \<Rightarrow> string \<Rightarrow> bool"

text \<open>\<open>String.prototype.toLowerCase\<close>, on the ASCII letters.\<close>

definition lower_char :: "char \<Rightarrow> char" where
  "lower_char c =
     (case map_of (zip ''ABCDEFGHIJKLMNOPQRSTUVWXYZ'' ''abcdefghijklmnopqrstuvwxyz'') c of
        Some l \<Rightarrow> l
      | None \<Rightarrow> c)"

definition toLowerCase :: "string \<Rightarrow> string" where
  "toLowerCase s = map lower_char s"

subsection \<open>Instance methods of a user document\<close>

text \<open>
  The collection is the list of its documents. \<open>this.save()\<close> writes the document
  back in place of the stored one with the same \<open>_id\<close>.
\<close>

fun update_first :: "('a \<Rightarrow> bool) \<Rightarrow> ('a \<Rightarrow> 'a) \<Rightarrow> 'a list \<Rightarrow> 'a list" where
  "update_first P f [] = []"
| "update_first P f (x # xs) = (if P x then f x # xs else x # update_first P f xs)"

definition save :: "User \<Rightarrow> User list \<Rightarrow> User list" where
  "save u ds = update_first (\<lambda>d. oid d = oid u) (\<lambda>_. u) ds"

definition cleanExpiredSessions :: "nat \<Rightarrow> User \<Rightarrow> User" where
  "cleanExpiredSessions now u = u\<lparr>sessions := filter (\<lambda>session. now < expiresAt session) (sessions u)\<rparr>"

definition addSession ::
  "ext \<Rightarrow> nat \<Rightarrow> string \<Rightarrow> User \<Rightarrow> token \<Rightarrow> nat \<Rightarrow> string option \<Rightarrow> string option \<Rightarrow>
   User list \<Rightarrow> User list" where
  "addSession E now salt u tok expires ua ipaddr ds =
     (let hashedToken = bcrypt_hash E (first72 tok) salt;
          u1 = u\<lparr>sessions := sessions u @
                 [\<lparr>tokenHash = hashedToken, issuedAt = now, expiresAt = expires,
                   userAgent = ua, ip = ipaddr\<rparr>]\<rparr>;
          u2 = cleanExpiredSessions now u1;
          u3 = u2\<lparr>lastSeen := now\<rparr>
      in save u3 ds)"

definition removeSession :: "ext \<Rightarrow> User \<Rightarrow> token \<Rightarrow> User list \<Rightarrow> User list" where
  "removeSession E u tok ds =
     save (u\<lparr>sessions :=
               filter (\<lambda>session. \<not> bcrypt_compareSync E (first72 tok) (tokenHash session))
                 (sessions u)\<rparr>) ds"

definition validateSession :: "ext \<Rightarrow> nat \<Rightarrow> User \<Rightarrow> token \<Rightarrow> bool" where
  "validateSession E now u tok =
     list_ex (\<lambda>session. now < expiresAt session \<and>
                          bcrypt_compareSync E (first72 tok) (tokenHash session))
       (sessions u)"

subsection \<open>\<open>UserService\<close>: \<open>lib/database/services/user-service\<close>\<close>

text \<open>
  A method of \<open>UserService\<close> throws \<open>Error("User not found")\<close>, or whatever the
  database layer throws: the connection or the query failing (\<open>StoreUnavailable\<close>), a
  unique index refusing a write (\<open>DuplicateKey\<close>), or a validator of the schema
  refusing an update (\<open>ValidationError\<close>).

  The state is the collection and the fate of the coming database calls: the head of
  \<open>outages\<close> says whether the next call of a \<open>UserService\<close> method fails in the
  database layer, before anything is written (\<open>[]\<close>: none fails any more).
\<close>

datatype error = UserNotFound | StoreUnavailable | DuplicateKey | ValidationError

record store =
  docs :: "User list"
  outages :: "bool list"

definition ensureConnection :: "store \<Rightarrow> bool \<times> store" where
  "ensureConnection s =
     (case outages s of
        [] \<Rightarrow> (True, s)
      | down # rest \<Rightarrow> (\<not> down, s\<lparr>outages := rest\<rparr>))"

text \<open>The store answers the next \<open>n\<close> calls: none of them meets an outage.\<close>

definition store_answers :: "nat \<Rightarrow> store \<Rightarrow> bool" where
  "store_answers n s = (True \<notin> set (take n (outages s)))"

text \<open>The state once \<open>n\<close> calls have been made that write nothing.\<close>

definition after_calls :: "nat \<Rightarrow> store \<Rightarrow> store" where
  "after_calls n s = s\<lparr>outages := drop n (outages s)\<rparr>"

text \<open>
  \<open>User.findOne({ uid })\<close>. The \<open>uid\<close> read from a decoded token is \<open>undefined\<close>
  or \<open>null\<close> when the token has no such claim (\<open>None\<close>), and selects no document.
\<close>

definition findOne_uid :: "User list \<Rightarrow> string option \<Rightarrow> User option" where
  "findOne_uid ds q = find (\<lambda>d. Some (uid d) = q) ds"

definition findOne_email :: "User list \<Rightarrow> string \<Rightarrow> User option" where
  "findOne_email ds e = find (\<lambda>d. email d = e) ds"

definition findByUid :: "string option \<Rightarrow> store \<Rightarrow> (error + User option) \<times> store" where
  "findByUid q s =
     (case ensureConnection s of
        (False, s1) \<Rightarrow> (Inl StoreUnavailable, s1)
      | (True, s1) \<Rightarrow> (Inr (findOne_uid (docs s1) q), s1))"

definition findByEmail :: "string \<Rightarrow> store \<Rightarrow> (error + User option) \<times> store" where
  "findByEmail e s =
     (case ensureConnection s of
        (False, s1) \<Rightarrow> (Inl StoreUnavailable, s1)
      | (True, s1) \<Rightarrow> (Inr (findOne_email (docs s1) (toLowerCase e)), s1))"

record UserData =
  ud_uid :: string
  ud_email :: string
  ud_name :: "string option"
  ud_provider :: provider
  ud_photoURL :: "string option"

text \<open>
  \<open>User.findOneAndUpdate({ uid }, {...userData, email, lastSeen},
  { upsert: true, new: true, runValidators: true })\<close>. The validators of the schema run
  on the update first: \<open>uid\<close> and \<open>email\<close> are \<open>required\<close>, which an empty string
  fails, and nothing is written then. Otherwise the first document with the \<open>uid\<close>
  is updated in place, or a new one is inserted with the schema defaults, \<open>fresh\<close>
  being the \<open>_id\<close> the database gives it. The unique index on \<open>email\<close> refuses the
  write when another document has the address.
\<close>

definition findOneAndUpdate :: "nat \<Rightarrow> string \<Rightarrow> UserData \<Rightarrow> User list \<Rightarrow> error + User \<times> User list" where
  "findOneAndUpdate now fresh userData ds =
     (let e = toLowerCase (ud_email userData) in
      if ud_uid userData = [] \<or> e = [] then Inl ValidationError
      else
      case findOne_uid ds (Some (ud_uid userData)) of
        Some d \<Rightarrow>
          if list_ex (\<lambda>d'. email d' = e) (remove1 d ds) then Inl DuplicateKey
          else
            let d' = d\<lparr>uid := ud_uid userData, email := e, name := ud_name userData,
                       provider := ud_provider userData, photoURL := ud_photoURL userData,
                       lastSeen := now\<rparr>
            in Inr (d', update_first (\<lambda>x. uid x = ud_uid userData) (\<lambda>_. d') ds)
      | None \<Rightarrow>
          if list_ex (\<lambda>d'. email d' = e) ds then Inl DuplicateKey
          else
            let d' = \<lparr>oid = fresh, uid = ud_uid userData, email = e, name = ud_name userData,
                      provider = ud_provider userData, photoURL = ud_photoURL userData,
                      createdAt = now, lastSeen = now, sessions = []\<rparr>
            in Inr (d', ds @ [d']))"

definition upsertUser :: "nat \<Rightarrow> string \<Rightarrow> UserData \<Rightarrow> store \<Rightarrow> (error + User) \<times> store" where
  "upsertUser now fresh userData s =
     (case ensureConnection s of
        (False, s1) \<Rightarrow> (Inl StoreUnavailable, s1)
      | (True, s1) \<Rightarrow>
          (case findOneAndUpdate now fresh userData (docs s1) of
             Inl err \<Rightarrow> (Inl err, s1)
           | Inr (user, ds) \<Rightarrow> (Inr user, s1\<lparr>docs := ds\<rparr>)))"

definition addUserSession ::
  "ext \<Rightarrow> nat \<Rightarrow> string \<Rightarrow> string option \<Rightarrow> token \<Rightarrow> nat \<Rightarrow> string option \<Rightarrow> string option \<Rightarrow>
   store \<Rightarrow> (error + unit) \<times> store" where
  "addUserSession E now salt q tok expires ua ipaddr s =
     (case ensureConnection s of
        (False, s1) \<Rightarrow> (Inl StoreUnavailable, s1)
      | (True, s1) \<Rightarrow>
          (case findOne_uid (docs s1) q of
             None \<Rightarrow> (Inl UserNotFound, s1)
           | Some user \<Rightarrow>
               (Inr (), s1\<lparr>docs := addSession E now salt user tok expires ua ipaddr (docs s1)\<rparr>)))"

definition removeUserSession :: "ext \<Rightarrow> string option \<Rightarrow> token \<Rightarrow> store \<Rightarrow> (error + unit) \<times> store" where
  "removeUserSession E q tok s =
     (case ensureConnection s of
        (False, s1) \<Rightarrow> (Inl StoreUnavailable, s1)
      | (True, s1) \<Rightarrow>
          (case findOne_uid (docs s1) q of
             None \<Rightarrow> (Inl UserNotFound, s1)
           | Some user \<Rightarrow> (Inr (), s1\<lparr>docs := removeSession E user tok (docs s1)\<rparr>)))"

definition validateUserSession ::
  "ext \<Rightarrow> nat \<Rightarrow> string option \<Rightarrow> token \<Rightarrow> store \<Rightarrow> (error + bool) \<times> store" where
  "validateUserSession E now q tok s =
     (case ensureConnection s of
        (False, s1) \<Rightarrow> (Inl StoreUnavailable, s1)
      | (True, s1) \<Rightarrow>
          (case findOne_uid (docs s1) q of
             None \<Rightarrow> (Inr False, s1)
           | Some user \<Rightarrow> (Inr (validateSession E now user tok), s1)))"

section \<open>The route handlers\<close>

text \<open>
  A request, as far as the handlers read it: the JSON body (\<open>NotJson\<close> when
  \<open>request.json()\<close> throws, else the \<open>idToken\<close> member when it is a string), the
  \<open>app_session\<close> cookie and four headers.
\<close>

datatype json_body = NotJson | Json "string option"

record request =
  body :: json_body
  app_session :: "token option"
  authorization :: "string option"
  user_agent :: "string option"
  x_forwarded_for :: "string option"
  x_real_ip :: "string option"

record user_view =
  v_uid :: string
  v_email :: string
  v_name :: "string option"
  v_provider :: provider
  v_photoURL :: "string option"
  v_lastSeen :: "nat option"

text \<open>
  A response: the status, the members of the JSON body (\<open>fallback\<close> is \<open>True\<close> when
  the member is there), and the \<open>app_session\<close> cookie it sets with its \<open>maxAge\<close>.
  The \<open>details\<close> member of a validation error is left out.
\<close>

record response =
  status :: nat
  success :: bool
  r_user :: "user_view option"
  r_error :: "string option"
  r_details :: "string option"
  r_message :: "string option"
  fallback :: bool
  r_source :: "string option"
  set_cookie :: "(token \<times> nat) option"

definition json_response :: "nat \<Rightarrow> bool \<Rightarrow> response" where
  "json_response st ok =
     \<lparr>status = st, success = ok, r_user = None, r_error = None, r_details = None,
      r_message = None, fallback = False, r_source = None, set_cookie = None\<rparr>"

definition error_response :: "nat \<Rightarrow> string \<Rightarrow> response" where
  "error_response st msg = (json_response st False)\<lparr>r_error := Some msg\<rparr>"

definition view :: "User \<Rightarrow> user_view" where
  "view user =
     \<lparr>v_uid = uid user, v_email = email user, v_name = name user, v_provider = provider user,
      v_photoURL = photoURL user, v_lastSeen = None\<rparr>"

text \<open>\<open>x || undefined\<close> on a header: an empty string is falsy.\<close>

definition truthy :: "string option \<Rightarrow> string option" where
  "truthy h = (case h of Some v \<Rightarrow> (if v = [] then None else Some v) | None \<Rightarrow> None)"

definition or_else :: "string option \<Rightarrow> string option \<Rightarrow> string option" where
  "or_else a b = (case truthy a of Some v \<Rightarrow> Some v | None \<Rightarrow> b)"

text \<open>\<open>verifyIdToken\<close> of \<open>lib/firebase/admin\<close>: the error is caught and returned.\<close>

definition verifyIdToken :: "ext \<Rightarrow> string \<Rightarrow> string + DecodedIdToken" where
  "verifyIdToken E idToken = adminAuth_verifyIdToken E idToken"

text \<open>
  What a request draws at random: the salt of \<open>bcrypt.hash\<close>, the text
  \<open>generateSessionId\<close> puts after \<open>session_\<close> (the clock reading and the base-36
  digits of \<open>Math.random()\<close>), and the \<open>_id\<close> of a document the database inserts.
\<close>

record draws =
  salt :: string
  session_suffix :: string
  fresh_id :: string

definition generateSessionId :: "draws \<Rightarrow> string" where
  "generateSessionId r = ''session_'' @ session_suffix r"

subsection \<open>\<open>POST /api/auth/logout\<close>\<close>

definition logged_out :: response where
  "logged_out =
     (json_response 200 True)\<lparr>r_message := Some ''Logged out successfully'',
                               set_cookie := Some (Malformed [], 0)\<rparr>"

definition POST_logout :: "ext \<Rightarrow> string \<Rightarrow> nat \<Rightarrow> request \<Rightarrow> store \<Rightarrow> response \<times> store" where
  "POST_logout E JWT_SECRET now req s =
     (case app_session req of
        None \<Rightarrow> (logged_out, s)
      | Some sessionCookie \<Rightarrow>
          (case verifyJWT JWT_SECRET now sessionCookie of
             None \<Rightarrow> (logged_out, s)
           | Some payload \<Rightarrow>
               (case removeUserSession E (claim payload ''uid'') sessionCookie s of
                  (Inl err, s1) \<Rightarrow> (logged_out, s1)
                | (Inr _, s1) \<Rightarrow> (logged_out, s1))))"

subsection \<open>\<open>POST /api/auth/refresh-session\<close>\<close>

definition session_cookie :: "token \<Rightarrow> (token \<times> nat) option" where
  "session_cookie sessionToken = Some (sessionToken, 7 * 24 * 60 * 60)"

definition internal_error :: response where
  "internal_error = error_response 500 ''Internal server error''"

definition invalid_request :: response where
  "invalid_request = error_response 400 ''Invalid request data''"

text \<open>The step that removes the old session: whatever it throws is caught and logged.\<close>

definition remove_old_session :: "ext \<Rightarrow> string \<Rightarrow> nat \<Rightarrow> request \<Rightarrow> store \<Rightarrow> store" where
  "remove_old_session E JWT_SECRET now req s =
     (case app_session req of
        None \<Rightarrow> s
      | Some existingSessionCookie \<Rightarrow>
          (case verifyJWT JWT_SECRET now existingSessionCookie of
             None \<Rightarrow> s
           | Some oldPayload \<Rightarrow>
               snd (removeUserSession E (claim oldPayload ''uid'') existingSessionCookie s)))"

definition POST_refresh_session ::
  "ext \<Rightarrow> string \<Rightarrow> nat \<Rightarrow> draws \<Rightarrow> request \<Rightarrow> store \<Rightarrow> response \<times> store" where
  "POST_refresh_session E JWT_SECRET now r req s =
     (case body req of
        NotJson \<Rightarrow> (internal_error, s)
      | Json None \<Rightarrow> (invalid_request, s)
      | Json (Some idToken) \<Rightarrow>
          if idToken = [] then (invalid_request, s)
          else
            (case verifyIdToken E idToken of
               Inl err \<Rightarrow>
                 ((error_response 401 ''Invalid ID token'')\<lparr>r_details := Some err\<rparr>, s)
             | Inr decodedToken \<Rightarrow>
                 let s1 = remove_old_session E JWT_SECRET now req s;
                     userAgent = truthy (user_agent req);
                     ipaddr = or_else (x_forwarded_for req) (truthy (x_real_ip req));
                     sessionId = generateSessionId r;
                     expires = getJWTExpiration now;
                     jwtPayload = \<lparr>p_uid = t_uid decodedToken,
                                   p_email = (case truthy (t_email decodedToken) of
                                                Some e \<Rightarrow> e | None \<Rightarrow> []),
                                   p_name = None, p_provider = None, p_photoURL = None,
                                   p_sessionId = sessionId\<rparr>
                 in
                 (case signJWT JWT_SECRET now jwtPayload of
                    None \<Rightarrow> (internal_error, s1)
                  | Some sessionToken \<Rightarrow>
                      (case addUserSession E now (salt r) (Some (t_uid decodedToken)) sessionToken
                              expires userAgent ipaddr s1 of
                         (Inl err, s2) \<Rightarrow> (internal_error, s2)
                       | (Inr _, s2) \<Rightarrow>
                           (case findByUid (Some (t_uid decodedToken)) s2 of
                              (Inl err, s3) \<Rightarrow> (internal_error, s3)
                            | (Inr None, s3) \<Rightarrow> (error_response 404 ''User not found'', s3)
                            | (Inr (Some user), s3) \<Rightarrow>
                                ((json_response 200 True)\<lparr>r_user := Some (view user),
                                    set_cookie := session_cookie sessionToken\<rparr>, s3))))))"

subsection \<open>\<open>POST /api/auth/session\<close>\<close>

definition getProviderFromToken :: "DecodedIdToken \<Rightarrow> provider" where
  "getProviderFromToken tk =
     (case truthy (sign_in_provider tk) of
        Some p \<Rightarrow> (if p = ''google.com'' then Google else if p = ''github.com'' then Github else Email)
      | None \<Rightarrow> Email)"

definition handleSessionFallback ::
  "ext \<Rightarrow> string \<Rightarrow> nat \<Rightarrow> token \<Rightarrow> store \<Rightarrow> response option \<times> store" where
  "handleSessionFallback E JWT_SECRET now sessionToken s =
     (case verifyJWT JWT_SECRET now sessionToken of
        None \<Rightarrow> (None, s)
      | Some payload \<Rightarrow>
          (case validateUserSession E now (claim payload ''uid'') sessionToken s of
             (Inl err, s1) \<Rightarrow> (None, s1)
           | (Inr False, s1) \<Rightarrow> (None, s1)
           | (Inr True, s1) \<Rightarrow>
               (case findByUid (claim payload ''uid'') s1 of
                  (Inl err, s2) \<Rightarrow> (None, s2)
                | (Inr None, s2) \<Rightarrow> (None, s2)
                | (Inr (Some user), s2) \<Rightarrow>
                    (Some ((json_response 200 True)\<lparr>r_user := Some (view user), fallback := True\<rparr>),
                     s2))))"

definition authentication_failed :: "string \<Rightarrow> response" where
  "authentication_failed err = (error_response 401 ''Authentication failed'')\<lparr>r_details := Some err\<rparr>"

definition userData_of :: "DecodedIdToken \<Rightarrow> UserData" where
  "userData_of decodedToken =
     \<lparr>ud_uid = t_uid decodedToken,
      ud_email = (case truthy (t_email decodedToken) of Some e \<Rightarrow> e | None \<Rightarrow> []),
      ud_name = or_else (t_name decodedToken)
                  (truthy (map_option (takeWhile (\<lambda>c. c \<noteq> CHR ''@'')) (t_email decodedToken))),
      ud_provider = getProviderFromToken decodedToken,
      ud_photoURL = truthy (t_picture decodedToken)\<rparr>"

definition provider_name :: "provider \<Rightarrow> string" where
  "provider_name p = (case p of Email \<Rightarrow> ''email'' | Google \<Rightarrow> ''google'' | Github \<Rightarrow> ''github'')"

definition POST_session ::
  "ext \<Rightarrow> string \<Rightarrow> nat \<Rightarrow> draws \<Rightarrow> request \<Rightarrow> store \<Rightarrow> response \<times> store" where
  "POST_session E JWT_SECRET now r req s =
     (case body req of
        NotJson \<Rightarrow> (internal_error, s)
      | Json None \<Rightarrow> (invalid_request, s)
      | Json (Some idToken) \<Rightarrow>
          if idToken = [] then (invalid_request, s)
          else
            (case verifyIdToken E idToken of
               Inl err \<Rightarrow>
                 (case app_session req of
                    None \<Rightarrow> (authentication_failed err, s)
                  | Some existingSessionCookie \<Rightarrow>
                      (case handleSessionFallback E JWT_SECRET now existingSessionCookie s of
                         (Some fallbackResponse, s1) \<Rightarrow> (fallbackResponse, s1)
                       | (None, s1) \<Rightarrow> (authentication_failed err, s1)))
             | Inr decodedToken \<Rightarrow>
                 (case upsertUser now (fresh_id r) (userData_of decodedToken) s of
                    (Inl err, s1) \<Rightarrow> (internal_error, s1)
                  | (Inr user, s1) \<Rightarrow>
                      let sessionId = generateSessionId r;
                          expires = getJWTExpiration now;
                          jwtPayload = \<lparr>p_uid = uid user, p_email = email user,
                                        p_name = Some (name user),
                                        p_provider = Some (provider_name (provider user)),
                                        p_photoURL = Some (photoURL user),
                                        p_sessionId = sessionId\<rparr>
                      in
                      (case signJWT JWT_SECRET now jwtPayload of
                         None \<Rightarrow> (internal_error, s1)
                       | Some sessionToken \<Rightarrow>
                           (case addUserSession E now (salt r) (Some (uid user)) sessionToken expires
                                   (truthy (user_agent req))
                                   (or_else (x_forwarded_for req) (truthy (x_real_ip req))) s1 of
                              (Inl err, s2) \<Rightarrow> (internal_error, s2)
                            | (Inr _, s2) \<Rightarrow>
                                ((json_response 200 True)\<lparr>r_user := Some (view user),
                                    set_cookie := session_cookie sessionToken\<rparr>, s2))))))"

subsection \<open>\<open>GET /api/user/me\<close>\<close>

definition me_view :: "User \<Rightarrow> user_view" where
  "me_view user = (view user)\<lparr>v_lastSeen := Some (lastSeen user)\<rparr>"

definition bearer :: "request \<Rightarrow> string option" where
  "bearer req =
     (case authorization req of
        None \<Rightarrow> None
      | Some authHeader \<Rightarrow>
          if take 7 authHeader = ''Bearer '' then truthy (Some (drop 7 authHeader)) else None)"

text \<open>The second half of the handler: the session cookie, checked against the store.\<close>

definition me_by_cookie :: "ext \<Rightarrow> string \<Rightarrow> nat \<Rightarrow> request \<Rightarrow> store \<Rightarrow> response \<times> store" where
  "me_by_cookie E JWT_SECRET now req s =
     (case app_session req of
        None \<Rightarrow> (error_response 401 ''No authentication found'', s)
      | Some sessionCookie \<Rightarrow>
          (case verifyJWT JWT_SECRET now sessionCookie of
             None \<Rightarrow> (error_response 401 ''Invalid session'', s)
           | Some payload \<Rightarrow>
               (case validateUserSession E now (claim payload ''uid'') sessionCookie s of
                  (Inl err, s1) \<Rightarrow> (internal_error, s1)
                | (Inr False, s1) \<Rightarrow> (error_response 401 ''Session expired or invalid'', s1)
                | (Inr True, s1) \<Rightarrow>
                    (case findByUid (claim payload ''uid'') s1 of
                       (Inl err, s2) \<Rightarrow> (internal_error, s2)
                     | (Inr None, s2) \<Rightarrow> (error_response 404 ''User not found'', s2)
                     | (Inr (Some user), s2) \<Rightarrow>
                         ((json_response 200 True)\<lparr>r_user := Some (me_view user),
                             r_source := Some ''database''\<rparr>, s2)))))"

definition GET_me :: "ext \<Rightarrow> string \<Rightarrow> nat \<Rightarrow> request \<Rightarrow> store \<Rightarrow> response \<times> store" where
  "GET_me E JWT_SECRET now req s =
     (case bearer req of
        None \<Rightarrow> me_by_cookie E JWT_SECRET now req s
      | Some idToken \<Rightarrow>
          (case verifyIdToken E idToken of
             Inl err \<Rightarrow> me_by_cookie E JWT_SECRET now req s
           | Inr decodedToken \<Rightarrow>
               (case findByUid (Some (t_uid decodedToken)) s of
                  (Inl err, s1) \<Rightarrow> (internal_error, s1)
                | (Inr None, s1) \<Rightarrow> me_by_cookie E JWT_SECRET now req s1
                | (Inr (Some user), s1) \<Rightarrow>
                    ((json_response 200 True)\<lparr>r_user := Some (me_view user),
                        r_source := Some ''firebase''\<rparr>, s1))))"

section \<open>Password reset requests: \<open>ResetTokenService.createResetRequest\<close>\<close>

record reset_result =
  rr_success :: bool
  rr_message :: string

definition reset_error :: reset_result where
  "reset_error = \<lparr>rr_success = False, rr_message = ''An error occurred. Please try again.''\<rparr>"

definition createResetRequest ::
  "ext \<Rightarrow> string \<Rightarrow> nat \<Rightarrow> string \<Rightarrow> store \<Rightarrow> reset_result \<times> store" where
  "createResetRequest E JWT_SECRET now e s =
     (case findByEmail e s of
        (Inl err, s1) \<Rightarrow> (reset_error, s1)
      | (Inr None, s1) \<Rightarrow>
          (\<lparr>rr_success = False, rr_message = ''No account found with this email address''\<rparr>, s1)
      | (Inr (Some user), s1) \<Rightarrow>
          (case generateResetToken JWT_SECRET now (oid user) (email user) of
             None \<Rightarrow> (reset_error, s1)
           | Some resetToken \<Rightarrow>
               let emailSent = sendPasswordResetEmail E (email user) resetToken
                                 (case truthy (name user) of Some n \<Rightarrow> n | None \<Rightarrow> email user)
               in if \<not> emailSent
                  then (\<lparr>rr_success = False,
                         rr_message = ''Failed to send reset email. Please try again.''\<rparr>, s1)
                  else (\<lparr>rr_success = True,
                         rr_message = ''Password reset email sent successfully''\<rparr>, s1)))"

section \<open>Environment validation: \<open>lib/env\<close>\<close>

text \<open>
  \<open>process.env\<close> maps a variable to its value when it is set. The schema is the table
  of \<open>envSchema\<close>: for each key, the rule of its \<open>z.string()\<close>. Whether a string is
  a URL is zod's business, taken as the parameter \<open>is_url\<close>.
\<close>

type_synonym process_env = "string \<Rightarrow> string option"

datatype rule =
    Min nat string
  | Optional
  | OptionalDefault string
  | UrlDefault string string

definition envSchema :: "(string \<times> rule) list" where
  "envSchema =
     [(''NEXT_PUBLIC_FIREBASE_API_KEY'', Min 1 ''Firebase API key is required''),
      (''NEXT_PUBLIC_FIREBASE_AUTH_DOMAIN'', Min 1 ''Firebase auth domain is required''),
      (''NEXT_PUBLIC_FIREBASE_PROJECT_ID'', Min 1 ''Firebase project ID is required''),
      (''NEXT_PUBLIC_FIREBASE_STORAGE_BUCKET'', Min 1 ''Firebase storage bucket is required''),
      (''NEXT_PUBLIC_FIREBASE_MESSAGING_SENDER_ID'', Min 1 ''Firebase messaging sender ID is required''),
      (''NEXT_PUBLIC_FIREBASE_APP_ID'', Min 1 ''Firebase app ID is required''),
      (''NEXT_PUBLIC_FIREBASE_MEASUREMENT_ID'', Optional),
      (''FIREBASE_SERVICE_ACCOUNT_KEY'', Min 1 ''Firebase service account key is required''),
      (''GOOGLE_CLIENT_ID'', Min 1 ''Google client ID is required''),
      (''GOOGLE_CLIENT_SECRET'', Min 1 ''Google client secret is required''),
      (''GITHUB_CLIENT_ID'', Min 1 ''GitHub client ID is required''),
      (''GITHUB_CLIENT_SECRET'', Min 1 ''GitHub client secret is required''),
      (''MONGODB_URI'', Min 1 ''MongoDB URI is required''),
      (''JWT_SECRET'', Min 32 ''JWT secret must be at least 32 characters''),
      (''NEXT_PUBLIC_APP_URL'', UrlDefault ''App URL must be a valid URL'' ''http://localhost:3000''),
      (''EMAIL_HOST'', OptionalDefault ''smtp.gmail.com''),
      (''EMAIL_PORT'', OptionalDefault ''587''),
      (''EMAIL_USER'', Min 1 ''Email user is required''),
      (''EMAIL_PASS'', Min 1 ''Email password is required''),
      (''EMAIL_FROM_NAME'', OptionalDefault ''Firebase Auth App'')]"

text \<open>The parsed environment: the keys that have a value, in the order of the schema.\<close>

type_synonym Env = "(string \<times> string) list"

text \<open>One key of the schema: the issue zod raises (\<open>Inl\<close>), or the parsed value.\<close>

definition parse_field :: "(string \<Rightarrow> bool) \<Rightarrow> rule \<Rightarrow> string option \<Rightarrow> string + string option" where
  "parse_field is_url r v =
     (case r of
        Min n msg \<Rightarrow>
          (case v of None \<Rightarrow> Inl ''Required''
           | Some x \<Rightarrow> if length x < n then Inl msg else Inr (Some x))
      | Optional \<Rightarrow> Inr v
      | OptionalDefault d \<Rightarrow> (case v of None \<Rightarrow> Inr (Some d) | Some x \<Rightarrow> Inr (Some x))
      | UrlDefault msg d \<Rightarrow>
          (case v of None \<Rightarrow> Inr (Some d)
           | Some x \<Rightarrow> if is_url x then Inr (Some x) else Inl msg))"

definition issues :: "(string \<Rightarrow> bool) \<Rightarrow> process_env \<Rightarrow> (string \<times> string) list" where
  "issues is_url penv =
     concat (map (\<lambda>(k, r). case parse_field is_url r (penv k) of Inl msg \<Rightarrow> [(k, msg)] | Inr _ \<Rightarrow> [])
               envSchema)"

definition parsed :: "(string \<Rightarrow> bool) \<Rightarrow> process_env \<Rightarrow> Env" where
  "parsed is_url penv =
     concat (map (\<lambda>(k, r). case parse_field is_url r (penv k) of Inr (Some x) \<Rightarrow> [(k, x)] | _ \<Rightarrow> [])
               envSchema)"

text \<open>\<open>envSchema.parse(process.env)\<close>: the \<open>ZodError\<close> with its issues, or the environment.\<close>

definition envSchema_parse :: "(string \<Rightarrow> bool) \<Rightarrow> process_env \<Rightarrow> (string \<times> string) list + Env" where
  "envSchema_parse is_url penv =
     (if issues is_url penv = [] then Inr (parsed is_url penv) else Inl (issues is_url penv))"

definition is_set :: "process_env \<Rightarrow> string \<Rightarrow> bool" where
  "is_set penv k = (truthy (penv k) \<noteq> None)"

definition isBuildTime :: "process_env \<Rightarrow> bool" where
  "isBuildTime penv =
     (penv ''NODE_ENV'' = Some ''production'' \<and> \<not> is_set penv ''VERCEL'' \<and>
      \<not> is_set penv ''RAILWAY_ENVIRONMENT'')"

definition defaults :: "(string \<times> string option) list" where
  "defaults =
     [(''NEXT_PUBLIC_FIREBASE_API_KEY'', Some ''build-time-placeholder''),
      (''NEXT_PUBLIC_FIREBASE_AUTH_DOMAIN'', Some ''build-time-placeholder''),
      (''NEXT_PUBLIC_FIREBASE_PROJECT_ID'', Some ''build-time-placeholder''),
      (''NEXT_PUBLIC_FIREBASE_STORAGE_BUCKET'', Some ''build-time-placeholder''),
      (''NEXT_PUBLIC_FIREBASE_MESSAGING_SENDER_ID'', Some ''build-time-placeholder''),
      (''NEXT_PUBLIC_FIREBASE_APP_ID'', Some ''build-time-placeholder''),
      (''NEXT_PUBLIC_FIREBASE_MEASUREMENT_ID'', None),
      (''FIREBASE_SERVICE_ACCOUNT_KEY'', Some ''{}''),
      (''GOOGLE_CLIENT_ID'', Some ''build-time-placeholder''),
      (''GOOGLE_CLIENT_SECRET'', Some ''build-time-placeholder''),
      (''GITHUB_CLIENT_ID'', Some ''build-time-placeholder''),
      (''GITHUB_CLIENT_SECRET'', Some ''build-time-placeholder''),
      (''MONGODB_URI'', Some ''mongodb://localhost:27017/firebase-auth-app''),
      (''JWT_SECRET'', Some ''development-jwt-secret-at-least-32-characters-long-for-build''),
      (''NEXT_PUBLIC_APP_URL'', Some ''http://localhost:3000''),
      (''EMAIL_HOST'', Some ''smtp.gmail.com''),
      (''EMAIL_PORT'', Some ''587''),
      (''EMAIL_USER'', Some ''build-time-placeholder''),
      (''EMAIL_PASS'', Some ''build-time-placeholder''),
      (''EMAIL_FROM_NAME'', Some ''Firebase Auth App'')]"

text \<open>\<open>getDefaultEnv\<close>: for each key, \<open>process.env.KEY || default\<close>.\<close>

definition getDefaultEnv :: "process_env \<Rightarrow> Env" where
  "getDefaultEnv penv =
     concat (map (\<lambda>(k, d). case or_else (penv k) d of Some x \<Rightarrow> [(k, x)] | None \<Rightarrow> []) defaults)"

datatype env_error = EnvValidationFailed "(string \<times> string) list"

text \<open>
  \<open>validateEnv\<close>, with the module's \<open>cachedEnv\<close> passed in and out. \<open>Inl\<close> is the
  \<open>Error\<close> it throws, made of the issues; every issue is a \<open>ZodError\<close>'s.
\<close>

definition validateEnv ::
  "(string \<Rightarrow> bool) \<Rightarrow> process_env \<Rightarrow> Env option \<Rightarrow> (env_error + Env) \<times> Env option" where
  "validateEnv is_url penv cachedEnv =
     (case cachedEnv of
        Some cached \<Rightarrow> (Inr cached, cachedEnv)
      | None \<Rightarrow>
          if isBuildTime penv then (Inr (getDefaultEnv penv), Some (getDefaultEnv penv))
          else
            (case envSchema_parse is_url penv of
               Inr env \<Rightarrow> (Inr env, Some env)
             | Inl missingVars \<Rightarrow>
                 if penv ''NODE_ENV'' = Some ''production''
                 then (Inl (EnvValidationFailed missingVars), None)
                 else (Inr (getDefaultEnv penv), Some (getDefaultEnv penv))))"

text \<open>\<open>env.JWT_SECRET\<close>: the proxy validates and reads the key.\<close>

definition env_get ::
  "(string \<Rightarrow> bool) \<Rightarrow> process_env \<Rightarrow> Env option \<Rightarrow> string \<Rightarrow> env_error + string option" where
  "env_get is_url penv cachedEnv k =
     (case fst (validateEnv is_url penv cachedEnv) of
        Inl err \<Rightarrow> Inl err
      | Inr envVars \<Rightarrow> Inr (map_of envVars k))"

section \<open>A concrete scenario\<close>

text \<open>
  Stand-ins for the external collaborators, to run the model on concrete inputs: an
  identity provider that accepts one assertion, of a user with a 28-character
  \<open>uid\<close>, and a hash that is the four-character salt followed by the bytes it read;
  comparing reads the same bytes of the candidate.
\<close>

definition scenario_uid :: string where
  "scenario_uid = ''Zb4kQ9xLm2Tn7RwP0cVy5HdAe8Gf''"

definition read_bytes :: "prefix72 \<Rightarrow> string" where
  "read_bytes k =
     (case k of
        Bytes m \<Rightarrow> m
      | Head bs hi \<Rightarrow> bs @ decimal hi
      | Whole b sg \<Rightarrow> json_text b)"

definition scenario_ext :: ext where
  "scenario_ext =
     \<lparr>adminAuth_verifyIdToken =
        (\<lambda>t. if t = ''assertion-u1''
             then Inr \<lparr>t_uid = scenario_uid, t_email = Some ''A@x.com'', t_name = None,
                       t_picture = None, sign_in_provider = Some ''google.com''\<rparr>
             else Inl ''auth/argument-error''),
      bcrypt_hash = (\<lambda>k s. s @ read_bytes k),
      bcrypt_compareSync = (\<lambda>k h. drop 4 h = read_bytes k),
      sendPasswordResetEmail = (\<lambda>_ _ _. True)\<rparr>"

definition scenario_secret :: string where
  "scenario_secret = ''0123456789abcdef0123456789abcdef''"

text \<open>
  The user that the first \<open>POST /api/auth/session\<close> with the assertion stores, and
  the payload the route signs for that user.
\<close>

definition scenario_user :: "SessionRecord list \<Rightarrow> User" where
  "scenario_user ss =
     \<lparr>oid = ''id1'', uid = scenario_uid, email = ''a@x.com'', name = Some ''A'',
      provider = Google, photoURL = None, createdAt = 0, lastSeen = 0, sessions = ss\<rparr>"

definition session_payload :: "string \<Rightarrow> JWTPayload" where
  "session_payload n =
     \<lparr>p_uid = scenario_uid, p_email = ''a@x.com'', p_name = Some (Some ''A''),
      p_provider = Some ''google'', p_photoURL = Some None, p_sessionId = ''session_'' @ n\<rparr>"

definition scenario_payload :: JWTPayload where
  "scenario_payload = session_payload ''1''"

definition body_of :: "JWTPayload \<Rightarrow> nat \<Rightarrow> jws_body" where
  "body_of p now =
     \<lparr>custom = payload_claims p, iat = now div 1000,
      exp = Some (now div 1000 + JWT_EXPIRES_IN), aud = Some JWT_AUDIENCE, iss = Some JWT_ISSUER\<rparr>"

text \<open>The token \<open>signJWT\<close> makes of a payload at clock \<open>now\<close>, under the scenario's secret.\<close>

definition token_of :: "JWTPayload \<Rightarrow> nat \<Rightarrow> token" where
  "token_of p now = Compact (body_of p now) (HMAC scenario_secret (body_of p now))"

definition scenario_body :: "nat \<Rightarrow> jws_body" where
  "scenario_body now = body_of scenario_payload now"

definition scenario_token :: "nat \<Rightarrow> token" where
  "scenario_token now = token_of scenario_payload now"

text \<open>A second session of the same user: a later login, or another device.\<close>

definition other_token :: "nat \<Rightarrow> token" where
  "other_token now = token_of (session_payload ''2'') now"

text \<open>The record \<open>addSession\<close> stores for a token, with a salt, at clock \<open>now\<close>.\<close>

definition record_of :: "token \<Rightarrow> string \<Rightarrow> nat \<Rightarrow> SessionRecord" where
  "record_of tok s now =
     \<lparr>tokenHash = bcrypt_hash scenario_ext (first72 tok) s, issuedAt = now,
      expiresAt = getJWTExpiration now, userAgent = None, ip = None\<rparr>"

definition scenario_session :: SessionRecord where
  "scenario_session = record_of (scenario_token 0) ''salt'' 0"

definition other_session :: SessionRecord where
  "other_session = record_of (other_token 2000) ''pepa'' 2000"

text \<open>
  The store after the user logged in at clock 0, logged out at 1000 and logged in again
  at 2000: the one record it holds is the second token's.
\<close>

definition relogin_store :: store where
  "relogin_store =
     \<lparr>docs = [(scenario_user [other_session])\<lparr>lastSeen := 2000\<rparr>], outages = []\<rparr>"

definition scenario_draws :: "string \<Rightarrow> string \<Rightarrow> draws" where
  "scenario_draws s n = \<lparr>salt = s, session_suffix = n, fresh_id = ''id1''\<rparr>"

definition scenario_request :: "json_body \<Rightarrow> token option \<Rightarrow> request" where
  "scenario_request b c =
     \<lparr>body = b, app_session = c, authorization = None, user_agent = None,
      x_forwarded_for = None, x_real_ip = None\<rparr>"

text \<open>
  A \<open>process.env\<close> in which every variable of the schema is set and valid, but for
  the mode and the signing secret, which are the arguments.
\<close>

definition scenario_process_env :: "string \<Rightarrow> string \<Rightarrow> process_env" where
  "scenario_process_env node_env secret =
     map_of
       [(''NODE_ENV'', node_env),
        (''JWT_SECRET'', secret),
        (''NEXT_PUBLIC_FIREBASE_API_KEY'', ''key''),
        (''NEXT_PUBLIC_FIREBASE_AUTH_DOMAIN'', ''app.firebaseapp.com''),
        (''NEXT_PUBLIC_FIREBASE_PROJECT_ID'', ''app''),
        (''NEXT_PUBLIC_FIREBASE_STORAGE_BUCKET'', ''app.appspot.com''),
        (''NEXT_PUBLIC_FIREBASE_MESSAGING_SENDER_ID'', ''1''),
        (''NEXT_PUBLIC_FIREBASE_APP_ID'', ''1:1:web:1''),
        (''FIREBASE_SERVICE_ACCOUNT_KEY'', ''{}''),
        (''GOOGLE_CLIENT_ID'', ''g''),
        (''GOOGLE_CLIENT_SECRET'', ''gs''),
        (''GITHUB_CLIENT_ID'', ''h''),
        (''GITHUB_CLIENT_SECRET'', ''hs''),
        (''MONGODB_URI'', ''mongodb://db/app''),
        (''EMAIL_USER'', ''mailer''),
        (''EMAIL_PASS'', ''secret'')]"

section \<open>Properties of the codecs\<close>

lemma payload_claims_keys:
  "map_of (payload_claims p) ''exp'' = None"
  "map_of (payload_claims p) ''aud'' = None"
  "map_of (payload_claims p) ''iss'' = None"
  by (simp_all add: payload_claims_def optional_def split: option.splits)

lemma signJWT_token:
  assumes "JWT_SECRET \<noteq> []"
  shows "signJWT JWT_SECRET now p =
    Some (let body = \<lparr>custom = payload_claims p, iat = now div 1000,
                       exp = Some (now div 1000 + JWT_EXPIRES_IN),
                       aud = Some JWT_AUDIENCE, iss = Some JWT_ISSUER\<rparr>
          in Compact body (HMAC JWT_SECRET body))"
  using assms
  by (simp add: signJWT_def jwt_sign_def registered_clash_def payload_claims_keys Let_def)

text \<open>
  What \<open>signJWT\<close> puts into the token, field by field: \<open>uid\<close>, \<open>email\<close> and
  \<open>sessionId\<close> as strings, the three optional fields as they were given (absent,
  \<open>null\<close> or a string), and no other claim.
\<close>

lemma payload_claims_fields:
  "map_of (payload_claims p) ''uid'' = Some (Some (p_uid p))"
  "map_of (payload_claims p) ''email'' = Some (Some (p_email p))"
  "map_of (payload_claims p) ''name'' = p_name p"
  "map_of (payload_claims p) ''provider'' = map_option Some (p_provider p)"
  "map_of (payload_claims p) ''photoURL'' = p_photoURL p"
  "map_of (payload_claims p) ''sessionId'' = Some (Some (p_sessionId p))"
  by (simp_all add: payload_claims_def optional_def split: option.splits)

lemma payload_claims_no_other:
  "k \<notin> {''uid'', ''email'', ''name'', ''provider'', ''photoURL'', ''sessionId''} \<Longrightarrow>
   map_of (payload_claims p) k = None"
  by (simp add: payload_claims_def optional_def split: option.splits)

lemma payload_claims_distinct: "distinct (map fst (payload_claims p))"
  by (simp add: payload_claims_def optional_def split: option.splits)

text \<open>
  C3. For a secret of at least 32 characters, \<open>signJWT\<close> returns a token, and
  \<open>verifyJWT\<close> of that token, at any clock reading before the seven days are over,
  returns the claims that were signed: every field of the payload is read back as it
  was given (an optional field absent, \<open>null\<close> or its string), each once, and the only
  other claims are the issued-at time, the expiry seven days later, the audience
  \<open>firebase-auth-app-users\<close> and the issuer \<open>firebase-auth-app\<close>.
\<close>

theorem verifyJWT_signJWT_roundtrip:
  assumes "32 \<le> length JWT_SECRET"
    and "t div 1000 < now div 1000 + 604800"
  shows "\<exists>tok decoded.
           signJWT JWT_SECRET now p = Some tok \<and>
           verifyJWT JWT_SECRET t tok = Some decoded \<and>
           map_of (custom decoded) ''uid'' = Some (Some (p_uid p)) \<and>
           map_of (custom decoded) ''email'' = Some (Some (p_email p)) \<and>
           map_of (custom decoded) ''name'' = p_name p \<and>
           map_of (custom decoded) ''provider'' = map_option Some (p_provider p) \<and>
           map_of (custom decoded) ''photoURL'' = p_photoURL p \<and>
           map_of (custom decoded) ''sessionId'' = Some (Some (p_sessionId p)) \<and>
           (\<forall>k. k \<notin> {''uid'', ''email'', ''name'', ''provider'', ''photoURL'', ''sessionId''} \<longrightarrow>
                map_of (custom decoded) k = None) \<and>
           distinct (map fst (custom decoded)) \<and>
           iat decoded = now div 1000 \<and>
           exp decoded = Some (now div 1000 + 604800) \<and>
           aud decoded = Some ''firebase-auth-app-users'' \<and>
           iss decoded = Some ''firebase-auth-app''"
proof -
  let ?d = "\<lparr>custom = payload_claims p, iat = now div 1000,
             exp = Some (now div 1000 + JWT_EXPIRES_IN),
             aud = Some JWT_AUDIENCE, iss = Some JWT_ISSUER\<rparr>"
  from assms(1) have ne: "JWT_SECRET \<noteq> []" by auto
  have s: "signJWT JWT_SECRET now p = Some (Compact ?d (HMAC JWT_SECRET ?d))"
    using ne by (simp add: signJWT_token Let_def)
  have v: "verifyJWT JWT_SECRET t (Compact ?d (HMAC JWT_SECRET ?d)) = Some ?d"
    using ne assms(2) by (simp add: verifyJWT_def jwt_verify_def JWT_EXPIRES_IN_def)
  have "map_of (custom ?d) ''uid'' = Some (Some (p_uid p)) \<and>
        map_of (custom ?d) ''email'' = Some (Some (p_email p)) \<and>
        map_of (custom ?d) ''name'' = p_name p \<and>
        map_of (custom ?d) ''provider'' = map_option Some (p_provider p) \<and>
        map_of (custom ?d) ''photoURL'' = p_photoURL p \<and>
        map_of (custom ?d) ''sessionId'' = Some (Some (p_sessionId p)) \<and>
        (\<forall>k. k \<notin> {''uid'', ''email'', ''name'', ''provider'', ''photoURL'', ''sessionId''} \<longrightarrow>
             map_of (custom ?d) k = None) \<and>
        distinct (map fst (custom ?d)) \<and>
        iat ?d = now div 1000 \<and>
        exp ?d = Some (now div 1000 + 604800) \<and>
        aud ?d = Some ''firebase-auth-app-users'' \<and>
        iss ?d = Some ''firebase-auth-app''"
    using payload_claims_no_other [of _ p]
    by (simp add: payload_claims_fields payload_claims_distinct JWT_EXPIRES_IN_def
          JWT_AUDIENCE_def JWT_ISSUER_def del: insert_iff)
  with s v show ?thesis by blast
qed

theorem verifyJWT_signJWT_roundtrip_witness:
  "32 \<le> length scenario_secret \<and> (5000::nat) div 1000 < 0 div 1000 + 604800 \<and>
   (\<exists>tok decoded.
      signJWT scenario_secret 0 scenario_payload = Some tok \<and>
      verifyJWT scenario_secret 5000 tok = Some decoded \<and>
      map_of (custom decoded) ''uid'' = Some (Some ''Zb4kQ9xLm2Tn7RwP0cVy5HdAe8Gf'') \<and>
      map_of (custom decoded) ''email'' = Some (Some ''a@x.com'') \<and>
      map_of (custom decoded) ''name'' = Some (Some ''A'') \<and>
      map_of (custom decoded) ''provider'' = Some (Some ''google'') \<and>
      map_of (custom decoded) ''photoURL'' = Some None \<and>
      map_of (custom decoded) ''sessionId'' = Some (Some ''session_1'') \<and>
      map_of (custom decoded) ''type'' = None \<and>
      iat decoded = 0 \<and> exp decoded = Some 604800)"
proof -
  have h1: "32 \<le> length scenario_secret"
    by (simp add: scenario_secret_def)
  have h2: "(5000::nat) div 1000 < 0 div 1000 + 604800"
    by simp
  have k: "''type'' \<notin> {''uid'', ''email'', ''name'', ''provider'', ''photoURL'', ''sessionId''}"
    by simp
  from verifyJWT_signJWT_roundtrip [OF h1 h2, of scenario_payload]
  obtain tok decoded where
    "signJWT scenario_secret 0 scenario_payload = Some tok"
    "verifyJWT scenario_secret 5000 tok = Some decoded"
    "map_of (custom decoded) ''uid'' = Some (Some (p_uid scenario_payload))"
    "map_of (custom decoded) ''email'' = Some (Some (p_email scenario_payload))"
    "map_of (custom decoded) ''name'' = p_name scenario_payload"
    "map_of (custom decoded) ''provider'' = map_option Some (p_provider scenario_payload)"
    "map_of (custom decoded) ''photoURL'' = p_photoURL scenario_payload"
    "map_of (custom decoded) ''sessionId'' = Some (Some (p_sessionId scenario_payload))"
    "\<forall>k. k \<notin> {''uid'', ''email'', ''name'', ''provider'', ''photoURL'', ''sessionId''} \<longrightarrow>
         map_of (custom decoded) k = None"
    "iat decoded = 0 div 1000" "exp decoded = Some (0 div 1000 + 604800)"
    by blast
  with k h1 show ?thesis
    by (intro conjI exI [of _ tok] exI [of _ decoded])
       (simp_all add: scenario_payload_def session_payload_def scenario_uid_def)
qed

text \<open>The payload is recovered from the claims: no two payloads are signed alike.\<close>

lemma payload_claims_inject: "payload_claims p = payload_claims p' \<Longrightarrow> p = p'"
  by (cases p; cases p')
     (auto simp: payload_claims_def optional_def split: option.splits)

subsection \<open>Reset tokens\<close>

lemma verifyResetToken_Some:
  "verifyResetToken k now tok = Some d \<longleftrightarrow>
     jwt_verify tok k None None now = Some d \<and>
     map_of (custom d) ''type'' = Some (Some ''password_reset'')"
  by (auto simp: verifyResetToken_def split: option.splits)

lemma jwt_verify_plain_Some:
  "jwt_verify tok k None None now = Some d \<longleftrightarrow>
     k \<noteq> [] \<and> tok = Compact d (HMAC k d) \<and> (\<forall>e. exp d = Some e \<longrightarrow> now div 1000 < e)"
  by (cases tok) (auto simp: jwt_verify_def split: option.splits)

text \<open>
  C4. A token that \<open>jwt.verify\<close> accepts under the secret (the signature is valid and
  the expiry has not passed) but whose \<open>type\<close> claim is not exactly
  \<open>password_reset\<close> is rejected by \<open>verifyResetToken\<close>. The three checks are all or
  nothing: \<open>verifyResetToken\<close> returns the claims exactly when the signature is the
  secret's, the expiry has not passed and \<open>type\<close> is \<open>password_reset\<close>.
\<close>

theorem verifyResetToken_rejects_other_purpose:
  assumes "jwt_verify tok k None None now = Some decoded"
    and "map_of (custom decoded) ''type'' \<noteq> Some (Some ''password_reset'')"
  shows "verifyResetToken k now tok = None \<and>
         (\<forall>tok' d. verifyResetToken k now tok' = Some d \<longleftrightarrow>
            k \<noteq> [] \<and> tok' = Compact d (HMAC k d) \<and>
            (\<forall>e. exp d = Some e \<longrightarrow> now div 1000 < e) \<and>
            map_of (custom d) ''type'' = Some (Some ''password_reset''))"
proof -
  have "verifyResetToken k now tok = None"
    using assms by (simp add: verifyResetToken_def)
  then show ?thesis
    by (simp add: verifyResetToken_Some jwt_verify_plain_Some)
qed

theorem verifyResetToken_rejects_other_purpose_witness:
  "jwt_verify
     (Compact \<lparr>custom = [(''userId'', Some ''id1''), (''email'', Some ''a@x.com''),
                         (''type'', Some ''email_verification'')],
               iat = 0, exp = Some 3600, aud = None, iss = None\<rparr>
        (HMAC scenario_secret
           \<lparr>custom = [(''userId'', Some ''id1''), (''email'', Some ''a@x.com''),
                       (''type'', Some ''email_verification'')],
             iat = 0, exp = Some 3600, aud = None, iss = None\<rparr>))
     scenario_secret None None 5000 =
     Some \<lparr>custom = [(''userId'', Some ''id1''), (''email'', Some ''a@x.com''),
                      (''type'', Some ''email_verification'')],
            iat = 0, exp = Some 3600, aud = None, iss = None\<rparr> \<and>
   verifyResetToken scenario_secret 5000
     (Compact \<lparr>custom = [(''userId'', Some ''id1''), (''email'', Some ''a@x.com''),
                         (''type'', Some ''email_verification'')],
               iat = 0, exp = Some 3600, aud = None, iss = None\<rparr>
        (HMAC scenario_secret
           \<lparr>custom = [(''userId'', Some ''id1''), (''email'', Some ''a@x.com''),
                       (''type'', Some ''email_verification'')],
             iat = 0, exp = Some 3600, aud = None, iss = None\<rparr>)) = None"
proof -
  have h1: "jwt_verify
     (Compact \<lparr>custom = [(''userId'', Some ''id1''), (''email'', Some ''a@x.com''),
                         (''type'', Some ''email_verification'')],
               iat = 0, exp = Some 3600, aud = None, iss = None\<rparr>
        (HMAC scenario_secret
           \<lparr>custom = [(''userId'', Some ''id1''), (''email'', Some ''a@x.com''),
                       (''type'', Some ''email_verification'')],
             iat = 0, exp = Some 3600, aud = None, iss = None\<rparr>))
     scenario_secret None None 5000 =
     Some \<lparr>custom = [(''userId'', Some ''id1''), (''email'', Some ''a@x.com''),
                      (''type'', Some ''email_verification'')],
            iat = 0, exp = Some 3600, aud = None, iss = None\<rparr>"
    by (simp add: jwt_verify_def scenario_secret_def)
  have h2: "map_of (custom \<lparr>custom = [(''userId'', Some ''id1''), (''email'', Some ''a@x.com''),
                      (''type'', Some ''email_verification'')],
            iat = 0, exp = Some 3600, aud = None, iss = None\<rparr>) ''type'' \<noteq>
            Some (Some ''password_reset'')"
    by simp
  from verifyResetToken_rejects_other_purpose [OF h1 h2] h1 show ?thesis
    by blast
qed

text \<open>
  The two token families share the secret. A session token has no \<open>type\<close> claim, so
  it is no reset token; a reset token has neither issuer nor audience, so it is no
  session token.
\<close>

lemma session_token_is_no_reset_token:
  "signJWT k now p = Some tok \<Longrightarrow> verifyResetToken k t tok = None"
  by (auto simp: signJWT_def jwt_sign_def verifyResetToken_def jwt_verify_def Let_def
        payload_claims_def optional_def
      split: if_splits option.splits)

lemma reset_token_is_no_session_token:
  "generateResetToken k now userId e = Some tok \<Longrightarrow> verifyJWT k t tok = None"
  by (auto simp: generateResetToken_def jwt_sign_def verifyJWT_def jwt_verify_def Let_def
      split: if_splits option.splits)

section \<open>Properties of the credential store\<close>

lemmas serialisation_defs = first72_def json_text_def json_member_def registered_members_def
  json_string_def json_escape_def decimal.simps JWT_EXPIRES_IN_def JWT_AUDIENCE_def
  JWT_ISSUER_def Let_def

lemmas scenario_defs = scenario_ext_def scenario_secret_def scenario_payload_def
  session_payload_def scenario_body_def scenario_token_def other_token_def token_of_def
  body_of_def scenario_uid_def scenario_user_def scenario_session_def other_session_def
  scenario_draws_def record_of_def scenario_request_def read_bytes_def claim_def
  payload_claims_def optional_def relogin_store_def

lemma ensureConnection_docs: "ensureConnection s = (ok, s1) \<Longrightarrow> docs s1 = docs s"
  by (auto simp: ensureConnection_def split: list.splits)

lemma findOne_uid_None: "findOne_uid ds q = None \<longleftrightarrow> (\<forall>d\<in>set ds. Some (uid d) \<noteq> q)"
  by (auto simp: findOne_uid_def find_None_iff)

lemma findOne_uid_Some: "findOne_uid ds q = Some u \<Longrightarrow> u \<in> set ds \<and> Some (uid u) = q"
  by (auto simp: findOne_uid_def find_Some_iff)

text \<open>
  C10. For a \<open>uid\<close> that no stored document has, on a store that answers,
  \<open>addUserSession\<close> and \<open>removeUserSession\<close> throw \<open>Error("User not found")\<close>,
  \<open>validateUserSession\<close> returns \<open>false\<close> without throwing, and no document is
  created or changed.
\<close>

theorem unknown_uid_mutation_fails_validation_false:
  assumes "\<forall>d\<in>set (docs s). Some (uid d) \<noteq> q"
    and "ensureConnection s = (True, s1)"
  shows "addUserSession E now slt q tok expires ua ipaddr s = (Inl UserNotFound, s1) \<and>
         removeUserSession E q tok s = (Inl UserNotFound, s1) \<and>
         validateUserSession E now q tok s = (Inr False, s1) \<and>
         docs s1 = docs s"
proof -
  have d: "docs s1 = docs s" using assms(2) by (rule ensureConnection_docs)
  have n: "findOne_uid (docs s1) q = None" using assms(1) d by (simp add: findOne_uid_None)
  show ?thesis
    using assms(2) n d
    by (simp add: addUserSession_def removeUserSession_def validateUserSession_def)
qed

theorem unknown_uid_mutation_fails_validation_false_witness:
  "map uid (docs \<lparr>docs = [scenario_user []], outages = []\<rparr>) = [scenario_uid] \<and>
   scenario_uid \<noteq> ''u2'' \<and>
   addUserSession scenario_ext 5 ''salt'' (Some ''u2'') (scenario_token 0) 9 None None
     \<lparr>docs = [scenario_user []], outages = []\<rparr> =
     (Inl UserNotFound, \<lparr>docs = [scenario_user []], outages = []\<rparr>) \<and>
   removeUserSession scenario_ext (Some ''u2'') (scenario_token 0)
     \<lparr>docs = [scenario_user []], outages = []\<rparr> =
     (Inl UserNotFound, \<lparr>docs = [scenario_user []], outages = []\<rparr>) \<and>
   validateUserSession scenario_ext 5 (Some ''u2'') (scenario_token 0)
     \<lparr>docs = [scenario_user []], outages = []\<rparr> =
     (Inr False, \<lparr>docs = [scenario_user []], outages = []\<rparr>)"
proof -
  have h1: "\<forall>d\<in>set (docs \<lparr>docs = [scenario_user []], outages = []\<rparr>). Some (uid d) \<noteq> Some ''u2''"
    by (simp add: scenario_user_def scenario_uid_def)
  have h2: "ensureConnection \<lparr>docs = [scenario_user []], outages = []\<rparr> =
            (True, \<lparr>docs = [scenario_user []], outages = []\<rparr>)"
    by (simp add: ensureConnection_def)
  from unknown_uid_mutation_fails_validation_false [OF h1 h2] show ?thesis
    by (simp add: scenario_user_def scenario_uid_def)
qed

subsection \<open>Removing a session\<close>

lemma update_first_id: "(\<And>x. x \<in> set xs \<Longrightarrow> P x \<Longrightarrow> f x = x) \<Longrightarrow> update_first P f xs = xs"
  by (induction xs) auto

lemma save_stored:
  assumes "distinct (map oid ds)" and "u \<in> set ds"
  shows "save u ds = ds"
  unfolding save_def
proof (rule update_first_id)
  fix x assume "x \<in> set ds" "oid x = oid u"
  with assms have "x = u" by (meson distinct_map inj_onD)
  then show "u = x" by simp
qed

lemma filter_all: "\<forall>x\<in>set xs. P x \<Longrightarrow> filter P xs = xs"
  by (induction xs) auto

lemma removeSession_noop:
  assumes "distinct (map oid ds)" and "u \<in> set ds"
    and "\<forall>session\<in>set (sessions u). \<not> bcrypt_compareSync E (first72 tok) (tokenHash session)"
  shows "removeSession E u tok ds = ds"
  using assms by (simp add: removeSession_def filter_all save_stored)

lemma POST_logout_response: "fst (POST_logout E k now req s) = logged_out"
  by (simp add: POST_logout_def split: option.splits sum.splits prod.splits)

text \<open>After a document is saved, looking it up by its \<open>uid\<close> finds what was saved.\<close>

lemma findOne_uid_save:
  assumes "findOne_uid ds q = Some u" and "oid u' = oid u" and "uid u' = uid u"
  shows "findOne_uid (save u' ds) q = Some u'"
  using assms
proof (induction ds)
  case Nil
  then show ?case by (simp add: findOne_uid_def)
next
  case (Cons a ds)
  show ?case
  proof (cases "Some (uid a) = q")
    case True
    with Cons.prems show ?thesis by (auto simp: findOne_uid_def save_def)
  next
    case False
    with Cons.prems have "findOne_uid ds q = Some u" by (simp add: findOne_uid_def)
    with Cons have ih: "findOne_uid (save u' ds) q = Some u'" by simp
    from Cons.prems have q: "Some (uid u') = q" by (auto dest: findOne_uid_Some)
    show ?thesis
      using False ih q by (auto simp: findOne_uid_def save_def)
  qed
qed

text \<open>
  What \<open>removeUserSession\<close> leaves behind: no record of the user's that the token
  matches.
\<close>

lemma removeUserSession_no_match_left:
  assumes "removeUserSession E q tok s = (Inr (), s1)"
  shows "\<exists>u. findOne_uid (docs s1) q = Some u \<and>
             (\<forall>session\<in>set (sessions u). \<not> bcrypt_compareSync E (first72 tok) (tokenHash session))"
proof -
  from assms obtain s0 u where c: "ensureConnection s = (True, s0)"
    and f: "findOne_uid (docs s0) q = Some u"
    and d: "docs s1 = removeSession E u tok (docs s0)"
    by (auto simp: removeUserSession_def split: prod.splits bool.splits option.splits)
  let ?u' = "u\<lparr>sessions := filter (\<lambda>session. \<not> bcrypt_compareSync E (first72 tok) (tokenHash session))
                             (sessions u)\<rparr>"
  have "findOne_uid (save ?u' (docs s0)) q = Some ?u'"
    using f by (rule findOne_uid_save) simp_all
  then have "findOne_uid (docs s1) q = Some ?u'" by (simp add: d removeSession_def)
  then show ?thesis by auto
qed

text \<open>
  C9. When no stored record of the user matches the token, \<open>removeSession\<close> leaves
  the collection as it is and \<open>removeUserSession\<close> returns without an error; the
  logout route answers with its success response whatever the request and the store
  are, so also the second time.
\<close>

theorem removeSession_without_match_is_noop:
  assumes "distinct (map oid (docs s))"
    and "findOne_uid (docs s) q = Some u"
    and "\<forall>session\<in>set (sessions u). \<not> bcrypt_compareSync E (first72 tok) (tokenHash session)"
    and "ensureConnection s = (True, s1)"
  shows "removeSession E u tok (docs s) = docs s \<and>
         removeUserSession E q tok s = (Inr (), s1) \<and> docs s1 = docs s \<and>
         fst (POST_logout E k now req s) = logged_out \<and>
         fst (POST_logout E k now' req (snd (POST_logout E k now req s))) = logged_out"
proof -
  have d: "docs s1 = docs s" using assms(4) by (rule ensureConnection_docs)
  have u: "u \<in> set (docs s)" using assms(2) by (auto dest: findOne_uid_Some)
  have n: "removeSession E u tok (docs s) = docs s"
    using assms(1) u assms(3) by (rule removeSession_noop)
  have "removeUserSession E q tok s = (Inr (), s1)"
    using assms(2,4) d n by (simp add: removeUserSession_def)
  with n d show ?thesis by (simp add: POST_logout_response)
qed

theorem removeSession_without_match_is_noop_witness:
  "POST_logout scenario_ext scenario_secret 1000
     (scenario_request NotJson (Some (scenario_token 0)))
     \<lparr>docs = [scenario_user [scenario_session]], outages = []\<rparr> =
     (logged_out, \<lparr>docs = [scenario_user []], outages = []\<rparr>) \<and>
   findOne_uid (docs \<lparr>docs = [scenario_user []], outages = []\<rparr>) (Some scenario_uid) =
     Some (scenario_user []) \<and>
   removeUserSession scenario_ext (Some scenario_uid) (scenario_token 0)
     \<lparr>docs = [scenario_user []], outages = []\<rparr> =
     (Inr (), \<lparr>docs = [scenario_user []], outages = []\<rparr>) \<and>
   fst (POST_logout scenario_ext scenario_secret 2000
          (scenario_request NotJson (Some (scenario_token 0)))
          \<lparr>docs = [scenario_user []], outages = []\<rparr>) = logged_out \<and>
   list_all (\<lambda>session. \<not> bcrypt_compareSync scenario_ext
                              (first72 (Malformed ''not-a-session-token'')) (tokenHash session))
     (sessions (scenario_user [scenario_session])) \<and>
   removeUserSession scenario_ext (Some scenario_uid) (Malformed ''not-a-session-token'')
     \<lparr>docs = [scenario_user [scenario_session]], outages = []\<rparr> =
     (Inr (), \<lparr>docs = [scenario_user [scenario_session]], outages = []\<rparr>)"
proof -
  let ?s0 = "\<lparr>docs = [scenario_user [scenario_session]], outages = []\<rparr>"
  let ?s1 = "\<lparr>docs = [scenario_user []], outages = []\<rparr>"
  let ?req = "scenario_request NotJson (Some (scenario_token 0))"
  have first: "POST_logout scenario_ext scenario_secret 1000 ?req ?s0 = (logged_out, ?s1)"
    by (simp add: POST_logout_def verifyJWT_def jwt_verify_def removeUserSession_def
          ensureConnection_def findOne_uid_def removeSession_def save_def scenario_defs
          serialisation_defs getJWTExpiration_def)
  have h1: "distinct (map oid (docs ?s1))" "distinct (map oid (docs ?s0))"
    by simp_all
  have h2: "findOne_uid (docs ?s1) (Some scenario_uid) = Some (scenario_user [])"
    "findOne_uid (docs ?s0) (Some scenario_uid) = Some (scenario_user [scenario_session])"
    by (simp_all add: findOne_uid_def scenario_user_def)
  have h3: "\<forall>session\<in>set (sessions (scenario_user [])).
              \<not> bcrypt_compareSync scenario_ext (first72 (scenario_token 0)) (tokenHash session)"
    by (simp add: scenario_user_def)
  have h3': "\<forall>session\<in>set (sessions (scenario_user [scenario_session])).
              \<not> bcrypt_compareSync scenario_ext
                  (first72 (Malformed ''not-a-session-token'')) (tokenHash session)"
    by (simp add: scenario_defs serialisation_defs getJWTExpiration_def)
  have h4: "ensureConnection ?s1 = (True, ?s1)" "ensureConnection ?s0 = (True, ?s0)"
    by (simp_all add: ensureConnection_def)
  note t = removeSession_without_match_is_noop
  from t [OF h1(1) h2(1) h3 h4(1), of scenario_secret 2000 ?req]
  have second: "removeUserSession scenario_ext (Some scenario_uid) (scenario_token 0) ?s1 =
                  (Inr (), ?s1)"
    and logout: "fst (POST_logout scenario_ext scenario_secret 2000 ?req ?s1) = logged_out"
    by blast+
  from t [OF h1(2) h2(2) h3' h4(2)]
  have other: "removeUserSession scenario_ext (Some scenario_uid)
                 (Malformed ''not-a-session-token'') ?s0 = (Inr (), ?s0)"
    by blast
  from h3' have "list_all (\<lambda>session. \<not> bcrypt_compareSync scenario_ext
                              (first72 (Malformed ''not-a-session-token'')) (tokenHash session))
     (sessions (scenario_user [scenario_session]))"
    by (simp add: list_all_iff)
  with first h2(1) second logout other show ?thesis
    by blast
qed

text \<open>Removing twice: the second removal finds nothing to remove and does not throw.\<close>

lemma map_oid_save: "map oid (save u ds) = map oid ds"
  by (induction ds) (auto simp: save_def)

lemma removeUserSession_twice:
  assumes "distinct (map oid (docs s))"
    and "removeUserSession E q tok s = (Inr (), s1)"
    and "ensureConnection s1 = (True, s2)"
  shows "removeUserSession E q tok s1 = (Inr (), s2) \<and> docs s2 = docs s1"
proof -
  from assms(2) obtain u where f: "findOne_uid (docs s1) q = Some u"
    and n: "\<forall>session\<in>set (sessions u). \<not> bcrypt_compareSync E (first72 tok) (tokenHash session)"
    by (auto dest: removeUserSession_no_match_left)
  from assms(2) obtain s0 u0 where "ensureConnection s = (True, s0)"
    and "docs s1 = removeSession E u0 tok (docs s0)"
    by (auto simp: removeUserSession_def split: prod.splits bool.splits option.splits)
  then have "map oid (docs s1) = map oid (docs s)"
    by (simp add: removeSession_def map_oid_save ensureConnection_docs)
  with assms(1) have d1: "distinct (map oid (docs s1))" by simp
  have d: "docs s2 = docs s1" using assms(3) by (rule ensureConnection_docs)
  have u: "u \<in> set (docs s1)" using f by (auto dest: findOne_uid_Some)
  have "removeSession E u tok (docs s1) = docs s1"
    using d1 u n by (rule removeSession_noop)
  with f assms(3) d show ?thesis
    by (simp add: removeUserSession_def)
qed

text \<open>
  The scenario of a session's life: a record is added for a token, the token validates;
  the record is removed, the token validates no more.
\<close>

lemma scenario_add_validate_remove:
  "addUserSession scenario_ext 0 ''salt'' (Some scenario_uid) (scenario_token 0)
     (getJWTExpiration 0) None None \<lparr>docs = [scenario_user []], outages = []\<rparr> =
     (Inr (), \<lparr>docs = [scenario_user [scenario_session]], outages = []\<rparr>)"
  "validateUserSession scenario_ext 5000 (Some scenario_uid) (scenario_token 0)
     \<lparr>docs = [scenario_user [scenario_session]], outages = []\<rparr> =
     (Inr True, \<lparr>docs = [scenario_user [scenario_session]], outages = []\<rparr>)"
  "removeUserSession scenario_ext (Some scenario_uid) (scenario_token 0)
     \<lparr>docs = [scenario_user [scenario_session]], outages = []\<rparr> =
     (Inr (), \<lparr>docs = [scenario_user []], outages = []\<rparr>)"
  "validateUserSession scenario_ext 5000 (Some scenario_uid) (scenario_token 0)
     \<lparr>docs = [scenario_user []], outages = []\<rparr> =
     (Inr False, \<lparr>docs = [scenario_user []], outages = []\<rparr>)"
  by (simp_all add: scenario_defs serialisation_defs addUserSession_def validateUserSession_def
        removeUserSession_def ensureConnection_def findOne_uid_def addSession_def
        removeSession_def validateSession_def cleanExpiredSessions_def save_def
        getJWTExpiration_def)

subsection \<open>Upserting a user\<close>

lemma map_uid_update_first:
  "uid d' = x \<Longrightarrow> map uid (update_first (\<lambda>d. uid d = x) (\<lambda>_. d') ds) = map uid ds"
  by (induction ds) auto

lemma filter_other_update_first:
  "uid d' = x \<Longrightarrow>
   filter (\<lambda>d. uid d \<noteq> x) (update_first (\<lambda>d. uid d = x) (\<lambda>_. d') ds) =
   filter (\<lambda>d. uid d \<noteq> x) ds"
  by (induction ds) auto

lemma filter_absent: "\<forall>d\<in>set ds. uid d \<noteq> x \<Longrightarrow> filter (\<lambda>d. uid d = x) ds = []"
  by (induction ds) auto

lemma filter_same_update_first:
  "distinct (map uid ds) \<Longrightarrow> uid d' = x \<Longrightarrow> \<exists>d\<in>set ds. uid d = x \<Longrightarrow>
   filter (\<lambda>d. uid d = x) (update_first (\<lambda>d. uid d = x) (\<lambda>_. d') ds) = [d']"
proof (induction ds)
  case Nil
  then show ?case by simp
next
  case (Cons a ds)
  show ?case
  proof (cases "uid a = x")
    case True
    from Cons.prems(1) have "uid a \<notin> uid ` set ds" by simp
    with True have "\<forall>d\<in>set ds. uid d \<noteq> x" by (metis imageI)
    with True Cons.prems show ?thesis by (simp add: filter_absent)
  next
    case False
    with Cons show ?thesis by auto
  qed
qed

lemma findOne_uid_unique:
  "filter (\<lambda>d. uid d = x) ds = [u] \<Longrightarrow> findOne_uid ds (Some x) = Some u"
  by (induction ds) (auto simp: findOne_uid_def split: if_splits)

text \<open>
  One \<open>findOneAndUpdate\<close> that succeeds, on a collection whose \<open>uid\<close>s are distinct
  (the unique index): the \<open>uid\<close>s stay distinct, exactly one document has the
  \<open>uid\<close>, the other documents are as they were, and the document is the stored one
  with five fields written, or a new one.
\<close>

lemma findOneAndUpdate_result:
  assumes "distinct (map uid ds)"
    and "findOneAndUpdate now fresh ud ds = Inr (u, ds')"
  shows "distinct (map uid ds') \<and> filter (\<lambda>d. uid d = ud_uid ud) ds' = [u] \<and>
         filter (\<lambda>d. uid d \<noteq> ud_uid ud) ds' = filter (\<lambda>d. uid d \<noteq> ud_uid ud) ds \<and>
         ud_uid ud \<noteq> [] \<and> toLowerCase (ud_email ud) \<noteq> [] \<and>
         (case findOne_uid ds (Some (ud_uid ud)) of
            Some d \<Rightarrow>
              u = d\<lparr>uid := ud_uid ud, email := toLowerCase (ud_email ud), name := ud_name ud,
                    provider := ud_provider ud, photoURL := ud_photoURL ud, lastSeen := now\<rparr> \<and>
              length ds' = length ds
          | None \<Rightarrow>
              u = \<lparr>oid = fresh, uid = ud_uid ud, email = toLowerCase (ud_email ud),
                   name = ud_name ud, provider = ud_provider ud, photoURL = ud_photoURL ud,
                   createdAt = now, lastSeen = now, sessions = []\<rparr> \<and>
              ds' = ds @ [u])"
proof (cases "findOne_uid ds (Some (ud_uid ud))")
  case None
  from assms(2) have valid: "ud_uid ud \<noteq> []" "toLowerCase (ud_email ud) \<noteq> []"
    by (auto simp: findOneAndUpdate_def Let_def split: if_splits)
  from None have absent: "\<forall>d\<in>set ds. uid d \<noteq> ud_uid ud" by (simp add: findOne_uid_None)
  from assms(2) None
  have u: "u = \<lparr>oid = fresh, uid = ud_uid ud, email = toLowerCase (ud_email ud),
                 name = ud_name ud, provider = ud_provider ud, photoURL = ud_photoURL ud,
                 createdAt = now, lastSeen = now, sessions = []\<rparr>"
    and ds': "ds' = ds @ [u]"
    by (auto simp: findOneAndUpdate_def Let_def split: if_splits)
  have uu: "uid u = ud_uid ud" using u by simp
  with absent assms(1) ds' have "distinct (map uid ds')" by auto
  moreover have "filter (\<lambda>d. uid d = ud_uid ud) ds' = [u]"
    using absent ds' uu by (simp add: filter_absent)
  moreover have "filter (\<lambda>d. uid d \<noteq> ud_uid ud) ds' = filter (\<lambda>d. uid d \<noteq> ud_uid ud) ds"
    using ds' uu by simp
  ultimately show ?thesis using None u ds' valid by simp
next
  case (Some d)
  from assms(2) have valid: "ud_uid ud \<noteq> []" "toLowerCase (ud_email ud) \<noteq> []"
    by (auto simp: findOneAndUpdate_def Let_def split: if_splits)
  from Some have d: "d \<in> set ds" "uid d = ud_uid ud" by (auto dest: findOne_uid_Some)
  from assms(2) Some
  have u: "u = d\<lparr>uid := ud_uid ud, email := toLowerCase (ud_email ud), name := ud_name ud,
                  provider := ud_provider ud, photoURL := ud_photoURL ud, lastSeen := now\<rparr>"
    and ds': "ds' = update_first (\<lambda>x. uid x = ud_uid ud) (\<lambda>_. u) ds"
    by (auto simp: findOneAndUpdate_def Let_def split: if_splits)
  have uu: "uid u = ud_uid ud" using u by simp
  have "map uid ds' = map uid ds" unfolding ds' using uu by (rule map_uid_update_first)
  then have "distinct (map uid ds')" "length ds' = length ds"
    using assms(1) by (simp, metis length_map)
  moreover have "filter (\<lambda>d. uid d = ud_uid ud) ds' = [u]"
    unfolding ds' using assms(1) uu d by (intro filter_same_update_first) auto
  moreover have "filter (\<lambda>d. uid d \<noteq> ud_uid ud) ds' = filter (\<lambda>d. uid d \<noteq> ud_uid ud) ds"
    unfolding ds' using uu by (rule filter_other_update_first)
  ultimately show ?thesis using Some u valid by simp
qed

text \<open>An upsert that throws has written nothing.\<close>

lemma upsertUser_Inl:
  "upsertUser now fresh ud s = (Inl err, s') \<Longrightarrow> docs s' = docs s"
  by (auto simp: upsertUser_def split: prod.splits bool.splits sum.splits
           dest: ensureConnection_docs)

text \<open>
  The validators: an update with an empty \<open>uid\<close> or an empty \<open>email\<close> throws, and
  the stored address stays.
\<close>

lemma upsertUser_validation:
  assumes "ud_uid ud = [] \<or> ud_email ud = []" and "ensureConnection s = (True, s1)"
  shows "upsertUser now fresh ud s = (Inl ValidationError, s1) \<and> docs s1 = docs s"
  using assms
  by (auto simp: upsertUser_def findOneAndUpdate_def toLowerCase_def Let_def
           dest: ensureConnection_docs)

lemma upsertUser_Inr:
  assumes "upsertUser now fresh ud s = (Inr u, s')"
  shows "findOneAndUpdate now fresh ud (docs s) = Inr (u, docs s')"
  using assms
  by (auto simp: upsertUser_def split: prod.splits bool.splits sum.splits
           dest: ensureConnection_docs)

text \<open>
  C7. Two calls of \<open>upsertUser\<close> with the same \<open>uid\<close> that both succeed, on a
  collection whose \<open>uid\<close>s are distinct, leave exactly one document with that
  \<open>uid\<close>; its \<open>email\<close> is the second call's, in lower case, and not empty (the
  validators refuse an empty one). The second call, which finds the \<open>uid\<close>, writes
  \<open>email\<close>, \<open>name\<close>, \<open>provider\<close>, \<open>photoURL\<close> and \<open>lastSeen\<close> and leaves
  \<open>sessions\<close>, \<open>createdAt\<close> and the \<open>_id\<close> as they were; no document is added, no
  two documents share a \<open>uid\<close>, and the documents of other users are untouched.
\<close>

theorem upsertUser_same_uid_one_record:
  assumes "distinct (map uid (docs s))"
    and "upsertUser t1 id1 d1 s = (Inr u1, s1)"
    and "upsertUser t2 id2 d2 s1 = (Inr u2, s2)"
    and "ud_uid d2 = ud_uid d1"
  shows "filter (\<lambda>d. uid d = ud_uid d1) (docs s2) = [u2] \<and> distinct (map uid (docs s2)) \<and>
         email u2 = toLowerCase (ud_email d2) \<and> email u2 \<noteq> [] \<and> name u2 = ud_name d2 \<and>
         provider u2 = ud_provider d2 \<and> photoURL u2 = ud_photoURL d2 \<and> lastSeen u2 = t2 \<and>
         sessions u2 = sessions u1 \<and> createdAt u2 = createdAt u1 \<and> oid u2 = oid u1 \<and>
         uid u2 = uid u1 \<and> length (docs s2) = length (docs s1) \<and>
         filter (\<lambda>d. uid d \<noteq> ud_uid d1) (docs s2) = filter (\<lambda>d. uid d \<noteq> ud_uid d1) (docs s)"
proof -
  from assms(2) have f1: "findOneAndUpdate t1 id1 d1 (docs s) = Inr (u1, docs s1)"
    by (rule upsertUser_Inr)
  from assms(3) have f2: "findOneAndUpdate t2 id2 d2 (docs s1) = Inr (u2, docs s2)"
    by (rule upsertUser_Inr)
  note r1 = findOneAndUpdate_result [OF assms(1) f1]
  from r1 have inv1: "distinct (map uid (docs s1))" by simp
  from r1 have found: "findOne_uid (docs s1) (Some (ud_uid d2)) = Some u1"
    using assms(4) by (simp add: findOne_uid_unique)
  note r2 = findOneAndUpdate_result [OF inv1 f2]
  have "uid u1 = ud_uid d1"
    using found assms(4) by (auto dest: findOne_uid_Some)
  with found r2 r1 assms(4) show ?thesis by simp
qed

theorem upsertUser_same_uid_one_record_witness:
  "distinct (map uid (docs \<lparr>docs = [], outages = []\<rparr>)) \<and>
   upsertUser 0 ''id1''
     \<lparr>ud_uid = scenario_uid, ud_email = ''A@x.com'', ud_name = Some ''A'', ud_provider = Google,
      ud_photoURL = None\<rparr> \<lparr>docs = [], outages = []\<rparr> =
     (Inr (scenario_user []), \<lparr>docs = [scenario_user []], outages = []\<rparr>) \<and>
   upsertUser 7 ''id2''
     \<lparr>ud_uid = scenario_uid, ud_email = ''B@X.com'', ud_name = Some ''Bea'',
      ud_provider = Github, ud_photoURL = None\<rparr>
     \<lparr>docs = [scenario_user []], outages = []\<rparr> =
     (Inr ((scenario_user [])\<lparr>email := ''b@x.com'', name := Some ''Bea'', provider := Github,
                               lastSeen := 7\<rparr>),
      \<lparr>docs = [(scenario_user [])\<lparr>email := ''b@x.com'', name := Some ''Bea'',
                                    provider := Github, lastSeen := 7\<rparr>],
       outages = []\<rparr>) \<and>
   filter (\<lambda>d. uid d = scenario_uid)
     (docs \<lparr>docs = [(scenario_user [])\<lparr>email := ''b@x.com'', name := Some ''Bea'',
                                         provider := Github, lastSeen := 7\<rparr>],
            outages = []\<rparr>) =
     [(scenario_user [])\<lparr>email := ''b@x.com'', name := Some ''Bea'', provider := Github,
                          lastSeen := 7\<rparr>] \<and>
   upsertUser 9 ''id3''
     \<lparr>ud_uid = scenario_uid, ud_email = [], ud_name = None, ud_provider = Email,
      ud_photoURL = None\<rparr>
     \<lparr>docs = [scenario_user []], outages = []\<rparr> =
     (Inl ValidationError, \<lparr>docs = [scenario_user []], outages = []\<rparr>)"
proof -
  let ?d1 = "\<lparr>ud_uid = scenario_uid, ud_email = ''A@x.com'', ud_name = Some ''A'',
              ud_provider = Google, ud_photoURL = None\<rparr>"
  let ?d2 = "\<lparr>ud_uid = scenario_uid, ud_email = ''B@X.com'', ud_name = Some ''Bea'',
              ud_provider = Github, ud_photoURL = None\<rparr>"
  have h1: "distinct (map uid (docs \<lparr>docs = [], outages = []\<rparr>))"
    by simp
  have h2: "upsertUser 0 ''id1'' ?d1 \<lparr>docs = [], outages = []\<rparr> =
     (Inr (scenario_user []), \<lparr>docs = [scenario_user []], outages = []\<rparr>)"
    by (simp add: upsertUser_def ensureConnection_def findOneAndUpdate_def findOne_uid_def
          toLowerCase_def lower_char_def scenario_user_def scenario_uid_def Let_def)
  have h3: "upsertUser 7 ''id2'' ?d2 \<lparr>docs = [scenario_user []], outages = []\<rparr> =
     (Inr ((scenario_user [])\<lparr>email := ''b@x.com'', name := Some ''Bea'', provider := Github,
                               lastSeen := 7\<rparr>),
      \<lparr>docs = [(scenario_user [])\<lparr>email := ''b@x.com'', name := Some ''Bea'',
                                    provider := Github, lastSeen := 7\<rparr>],
       outages = []\<rparr>)"
    by (simp add: upsertUser_def ensureConnection_def findOneAndUpdate_def findOne_uid_def
          toLowerCase_def lower_char_def scenario_user_def scenario_uid_def Let_def)
  have h4: "ud_uid ?d2 = ud_uid ?d1"
    by simp
  have refused: "upsertUser 9 ''id3''
     \<lparr>ud_uid = scenario_uid, ud_email = [], ud_name = None, ud_provider = Email,
      ud_photoURL = None\<rparr>
     \<lparr>docs = [scenario_user []], outages = []\<rparr> =
     (Inl ValidationError, \<lparr>docs = [scenario_user []], outages = []\<rparr>)"
    by (simp add: upsertUser_def ensureConnection_def findOneAndUpdate_def toLowerCase_def)
  from upsertUser_same_uid_one_record [OF h1 h2 h3 h4]
  have "filter (\<lambda>d. uid d = ud_uid ?d1)
     (docs \<lparr>docs = [(scenario_user [])\<lparr>email := ''b@x.com'', name := Some ''Bea'',
                                         provider := Github, lastSeen := 7\<rparr>],
            outages = []\<rparr>) =
     [(scenario_user [])\<lparr>email := ''b@x.com'', name := Some ''Bea'', provider := Github,
                          lastSeen := 7\<rparr>]"
    by blast
  with h1 h2 h3 refused show ?thesis
    by simp
qed

section \<open>Properties of the routes\<close>

subsection \<open>Counting the calls to the store\<close>

lemma ensureConnection_eq:
  "ensureConnection s = (store_answers (Suc 0) s, after_calls (Suc 0) s)"
  by (cases "outages s") (auto simp: ensureConnection_def store_answers_def after_calls_def)

lemma store_answers_Suc_Suc:
  "store_answers (Suc (Suc n)) s \<longleftrightarrow>
     store_answers (Suc 0) s \<and> store_answers (Suc n) (after_calls (Suc 0) s)"
  by (cases "outages s") (auto simp: store_answers_def after_calls_def)

lemma after_calls_simps [simp]:
  "docs (after_calls n s) = docs s"
  "outages (after_calls n s) = drop n (outages s)"
  "after_calls n (after_calls m s) = after_calls (m + n) s"
  by (simp_all add: after_calls_def add.commute)

lemma after_calls_docs [simp]:
  "after_calls n (s\<lparr>docs := ds\<rparr>) = (after_calls n s)\<lparr>docs := ds\<rparr>"
  by (simp add: after_calls_def)

lemma store_answers_docs [simp]: "store_answers n (s\<lparr>docs := ds\<rparr>) = store_answers n s"
  by (simp add: store_answers_def)

lemmas calls = store_answers_Suc_Suc numeral_2_eq_2

lemma validateUserSession_eq:
  "validateUserSession E now q tok s =
     (if store_answers 1 s
      then Inr (case findOne_uid (docs s) q of
                  None \<Rightarrow> False
                | Some u \<Rightarrow> validateSession E now u tok)
      else Inl StoreUnavailable, after_calls 1 s)"
  by (simp add: validateUserSession_def ensureConnection_eq split: option.splits)

lemma findByUid_eq:
  "findByUid q s =
     (if store_answers 1 s then Inr (findOne_uid (docs s) q) else Inl StoreUnavailable,
      after_calls 1 s)"
  by (simp add: findByUid_def ensureConnection_eq)

lemma addUserSession_eq:
  "addUserSession E now slt q tok expires ua ipaddr s =
     (if \<not> store_answers (Suc 0) s then (Inl StoreUnavailable, after_calls (Suc 0) s)
      else case findOne_uid (docs s) q of
             None \<Rightarrow> (Inl UserNotFound, after_calls (Suc 0) s)
           | Some user \<Rightarrow>
               (Inr (), (after_calls (Suc 0) s)\<lparr>docs :=
                          addSession E now slt user tok expires ua ipaddr (docs s)\<rparr>))"
  by (simp add: addUserSession_def ensureConnection_eq split: option.splits)

lemma removeUserSession_eq:
  "removeUserSession E q tok s =
     (if \<not> store_answers (Suc 0) s then (Inl StoreUnavailable, after_calls (Suc 0) s)
      else case findOne_uid (docs s) q of
             None \<Rightarrow> (Inl UserNotFound, after_calls (Suc 0) s)
           | Some user \<Rightarrow>
               (Inr (), (after_calls (Suc 0) s)\<lparr>docs := removeSession E user tok (docs s)\<rparr>))"
  by (simp add: removeUserSession_def ensureConnection_eq split: option.splits)

text \<open>A removal that throws has written nothing.\<close>

lemma removeUserSession_fails:
  "removeUserSession E q tok s = (Inl e, s1) \<Longrightarrow> s1 = after_calls (Suc 0) s"
  by (auto simp: removeUserSession_eq split: if_splits option.splits)

lemma addSession_eq:
  "addSession E now slt u tok (getJWTExpiration now) ua ipaddr ds =
     save (u\<lparr>sessions := filter (\<lambda>session. now < expiresAt session) (sessions u) @
                   [\<lparr>tokenHash = bcrypt_hash E (first72 tok) slt, issuedAt = now,
                     expiresAt = getJWTExpiration now, userAgent = ua, ip = ipaddr\<rparr>],
            lastSeen := now\<rparr>) ds"
  by (simp add: addSession_def cleanExpiredSessions_def getJWTExpiration_def Let_def)

subsection \<open>Validation against the store\<close>

lemmas route_defs = GET_me_def me_by_cookie_def bearer_def POST_session_def
  handleSessionFallback_def POST_refresh_session_def remove_old_session_def POST_logout_def
  verifyIdToken_def verifyJWT_def jwt_verify_def signJWT_def jwt_sign_def registered_clash_def
  validateUserSession_def removeUserSession_def addUserSession_def findByUid_def
  upsertUser_def findOneAndUpdate_def userData_of_def getProviderFromToken_def
  provider_name_def toLowerCase_def lower_char_def
  ensureConnection_def findOne_uid_def validateSession_def removeSession_def addSession_def
  cleanExpiredSessions_def save_def getJWTExpiration_def generateSessionId_def
  JWT_EXPIRES_IN_def JWT_AUDIENCE_def JWT_ISSUER_def truthy_def or_else_def
  json_response_def error_response_def internal_error_def view_def me_view_def
  session_cookie_def authentication_failed_def logged_out_def

text \<open>
  What the validation does guarantee. For a cookie that \<open>verifyJWT\<close> accepts and no
  identity-provider assertion that verifies: when no stored record of the token's
  user compares equal to the token, \<open>validateUserSession\<close> returns \<open>false\<close> and
  \<open>GET /api/user/me\<close> answers 401 (500 when the store does not answer). The
  comparison reads the first 72 bytes of the token only.
\<close>

lemma unmatched_session_is_unauthenticated:
  assumes "verifyJWT k now tok = Some payload"
    and "app_session req = Some tok"
    and "bearer req = None \<or>
         (\<exists>idToken err. bearer req = Some idToken \<and> verifyIdToken E idToken = Inl err)"
    and "\<forall>u. findOne_uid (docs s) (claim payload ''uid'') = Some u \<longrightarrow>
           (\<forall>session\<in>set (sessions u).
              \<not> bcrypt_compareSync E (first72 tok) (tokenHash session))"
  shows "validateUserSession E now (claim payload ''uid'') tok s =
           (if store_answers 1 s then Inr False else Inl StoreUnavailable, after_calls 1 s) \<and>
         GET_me E k now req s =
           (if store_answers 1 s then error_response 401 ''Session expired or invalid''
            else internal_error, after_calls 1 s) \<and>
         \<not> success (fst (GET_me E k now req s)) \<and> r_user (fst (GET_me E k now req s)) = None"
proof -
  have v: "(case findOne_uid (docs s) (claim payload ''uid'') of
              None \<Rightarrow> False
            | Some u \<Rightarrow> validateSession E now u tok) = False"
    using assms(4) by (auto simp: validateSession_def list_ex_iff split: option.splits)
  have val: "validateUserSession E now (claim payload ''uid'') tok s =
           (if store_answers 1 s then Inr False else Inl StoreUnavailable, after_calls 1 s)"
    by (simp add: validateUserSession_eq v)
  have cookie: "me_by_cookie E k now req s =
           (if store_answers 1 s then error_response 401 ''Session expired or invalid''
            else internal_error, after_calls 1 s)"
    using assms(1,2) by (simp add: me_by_cookie_def val)
  have "GET_me E k now req s = me_by_cookie E k now req s"
    using assms(3) by (auto simp: GET_me_def)
  with cookie val show ?thesis
    by (simp add: error_response_def json_response_def internal_error_def)
qed

text \<open>
  The first 72 bytes of a session token. The payload that the routes sign starts with
  the \<open>uid\<close>, so the bytes are the token's header, the opening of the payload and the
  first 18 characters of the \<open>uid\<close> (and two bits of the 19th): for a \<open>uid\<close> of 19
  characters or more, none of which JSON escapes, nothing of the session id, of the
  time of issue or of the signature is among them.
\<close>

lemma concat_plain: "\<forall>c\<in>set u. json_escape c = [c] \<Longrightarrow> concat (map json_escape u) = u"
  by (induction u) auto

lemma json_text_session:
  assumes "custom b = payload_claims p" and "\<forall>c\<in>set (p_uid p). json_escape c = [c]"
  shows "\<exists>rest. json_text b =
           (CHR ''{'' # CHR 0x22 # ''uid'' @ [CHR 0x22, CHR '':'', CHR 0x22]) @ p_uid p @
           CHR 0x22 # rest"
proof -
  obtain y ys where r: "map json_member (tl (payload_claims p)) @ registered_members b = y # ys"
    by (cases "map json_member (tl (payload_claims p)) @ registered_members b")
       (auto simp: registered_members_def)
  have "map json_member (custom b) @ registered_members b =
          json_member (''uid'', Some (p_uid p)) # y # ys"
    using r by (simp add: assms(1) payload_claims_def)
  then have "json_text b =
          ''{'' @ json_member (''uid'', Some (p_uid p)) @ '','' @ join (y # ys) @ ''}''"
    by (simp add: json_text_def)
  moreover have "json_member (''uid'', Some (p_uid p)) =
                   (CHR 0x22 # ''uid'' @ [CHR 0x22, CHR '':'', CHR 0x22]) @ p_uid p @ [CHR 0x22]"
    using assms(2) by (simp add: json_member_def json_string_def json_escape_def concat_plain)
  ultimately show ?thesis by simp
qed

lemma first72_session_token:
  assumes "custom b = payload_claims p" and "19 \<le> length (p_uid p)"
    and "\<forall>c\<in>set (p_uid p). json_escape c = [c]"
  shows "first72 (Compact b sg) =
           Head ((CHR ''{'' # CHR 0x22 # ''uid'' @ [CHR 0x22, CHR '':'', CHR 0x22]) @
                 take 18 (p_uid p))
                (of_char (p_uid p ! 18) div 64)"
proof -
  from json_text_session [OF assms(1,3)] obtain rest where
    j: "json_text b =
          (CHR ''{'' # CHR 0x22 # ''uid'' @ [CHR 0x22, CHR '':'', CHR 0x22]) @ p_uid p @
          CHR 0x22 # rest"
    by blast
  from assms(2) have "18 < length (p_uid p)" by simp
  then have d: "drop 18 (p_uid p) = p_uid p ! 18 # drop (Suc 18) (p_uid p)"
    by (rule Cons_nth_drop_Suc [symmetric])
  show ?thesis
    using assms(2) d by (simp add: first72_def j Let_def)
qed

text \<open>
  So two session tokens of one user are one candidate to \<open>bcrypt\<close>, whatever hash
  function it is: a record of either token matches both, and removing either removes
  the records of both.
\<close>

lemma session_tokens_of_one_user_match_alike:
  assumes "custom b = payload_claims p" and "custom b' = payload_claims p'"
    and "p_uid p' = p_uid p" and "19 \<le> length (p_uid p)"
    and "\<forall>c\<in>set (p_uid p). json_escape c = [c]"
  shows "first72 (Compact b sg) = first72 (Compact b' sg')"
    and "validateSession E now u (Compact b sg) = validateSession E now u (Compact b' sg')"
    and "removeSession E u (Compact b sg) ds = removeSession E u (Compact b' sg') ds"
proof -
  show eq: "first72 (Compact b sg) = first72 (Compact b' sg')"
    using assms by (simp add: first72_session_token)
  show "validateSession E now u (Compact b sg) = validateSession E now u (Compact b' sg')"
    by (simp add: validateSession_def eq)
  show "removeSession E u (Compact b sg) ds = removeSession E u (Compact b' sg') ds"
    by (simp add: removeSession_def eq)
qed

text \<open>
  With a \<open>bcrypt\<close> that matches a string with its own hash, a token is therefore
  validated by the unexpired record of any other session token of its user.
\<close>

lemma validated_by_record_of_other_token:
  assumes "custom b = payload_claims p" and "custom b' = payload_claims p'"
    and "p_uid p' = p_uid p" and "19 \<le> length (p_uid p)"
    and "\<forall>c\<in>set (p_uid p). json_escape c = [c]"
    and "\<forall>k slt. bcrypt_compareSync E k (bcrypt_hash E k slt)"
    and "session \<in> set (sessions u)"
    and "tokenHash session = bcrypt_hash E (first72 (Compact b' sg')) slt"
    and "now < expiresAt session"
  shows "validateSession E now u (Compact b sg)"
proof -
  have "first72 (Compact b sg) = first72 (Compact b' sg')"
    using assms(1-5) by (rule session_tokens_of_one_user_match_alike)
  with assms(6,8) have "bcrypt_compareSync E (first72 (Compact b sg)) (tokenHash session)"
    by simp
  with assms(7,9) show ?thesis
    by (auto simp: validateSession_def list_ex_iff)
qed

text \<open>The scenario: a login, a logout and a second login of one user.\<close>

lemma scenario_first72:
  "first72 (scenario_token 0) =
     Head (CHR ''{'' # CHR 0x22 # ''uid'' @ [CHR 0x22, CHR '':'', CHR 0x22] @
           ''Zb4kQ9xLm2Tn7RwP0c'') 1"
  "first72 (other_token 2000) = first72 (scenario_token 0)"
  by (simp_all add: scenario_defs serialisation_defs)

lemma scenario_login:
  "POST_session scenario_ext scenario_secret 0 (scenario_draws ''salt'' ''1'')
     (scenario_request (Json (Some ''assertion-u1'')) None) \<lparr>docs = [], outages = []\<rparr> =
     ((json_response 200 True)\<lparr>r_user := Some (view (scenario_user [])),
         set_cookie := session_cookie (scenario_token 0)\<rparr>,
      \<lparr>docs = [scenario_user [scenario_session]], outages = []\<rparr>)"
  by (simp add: scenario_defs route_defs Let_def)

lemma scenario_logout:
  "POST_logout scenario_ext scenario_secret 1000
     (scenario_request NotJson (Some (scenario_token 0)))
     \<lparr>docs = [scenario_user [scenario_session]], outages = []\<rparr> =
     (logged_out, \<lparr>docs = [scenario_user []], outages = []\<rparr>)"
  by (simp add: scenario_defs route_defs serialisation_defs)

lemma scenario_second_login:
  "POST_session scenario_ext scenario_secret 2000 (scenario_draws ''pepa'' ''2'')
     (scenario_request (Json (Some ''assertion-u1'')) None)
     \<lparr>docs = [scenario_user []], outages = []\<rparr> =
     ((json_response 200 True)\<lparr>r_user := Some (view (scenario_user [])),
         set_cookie := session_cookie (other_token 2000)\<rparr>,
      relogin_store)"
  by (simp add: scenario_defs route_defs Let_def)

lemma scenario_tokens_differ: "scenario_token 0 \<noteq> other_token 2000"
  by (simp add: scenario_defs)

lemma scenario_token_verifies:
  "verifyJWT scenario_secret 3000 (scenario_token 0) = Some (scenario_body 0)"
  by (simp add: scenario_defs route_defs)

lemma scenario_found:
  "findByUid (Some scenario_uid) relogin_store =
     (Inr (Some ((scenario_user [other_session])\<lparr>lastSeen := 2000\<rparr>)), relogin_store)"
  by (simp add: findByUid_def ensureConnection_def findOne_uid_def relogin_store_def
        scenario_user_def)

lemma scenario_claim_uid: "claim (scenario_body 0) ''uid'' = Some scenario_uid"
  by (simp add: scenario_defs)

lemma scenario_validates:
  "validateUserSession scenario_ext 3000 (Some scenario_uid) (scenario_token 0) relogin_store =
     (Inr True, relogin_store)"
  by (simp add: validateUserSession_def ensureConnection_def findOne_uid_def
        validateSession_def relogin_store_def scenario_user_def other_session_def record_of_def
        scenario_first72 getJWTExpiration_def JWT_EXPIRES_IN_def
        scenario_ext_def)

text \<open>
  C1. A session token whose record was removed is accepted again. The user logs in
  (token 1, at clock 0), logs out with token 1 (its record is removed: the user has no
  record left), and logs in again (token 2, at clock 2000). Token 1 still verifies, and
  its own record is gone: the one stored record is token 2's. Presented at clock 3000,
  token 1 is validated against that record, \<open>validateUserSession\<close> returns \<open>true\<close> and
  \<open>GET /api/user/me\<close> answers 200 with the user's data, where the spec asks for
  \<open>Unauthenticated\<close>: the hash comparison reads the first 72 bytes of the token, which
  the two tokens share.
\<close>

theorem revoked_token_accepted_after_new_login:
  "POST_session scenario_ext scenario_secret 0 (scenario_draws ''salt'' ''1'')
     (scenario_request (Json (Some ''assertion-u1'')) None) \<lparr>docs = [], outages = []\<rparr> =
     ((json_response 200 True)\<lparr>r_user := Some (view (scenario_user [])),
         set_cookie := session_cookie (scenario_token 0)\<rparr>,
      \<lparr>docs = [scenario_user [scenario_session]], outages = []\<rparr>) \<and>
   POST_logout scenario_ext scenario_secret 1000
     (scenario_request NotJson (Some (scenario_token 0)))
     \<lparr>docs = [scenario_user [scenario_session]], outages = []\<rparr> =
     (logged_out, \<lparr>docs = [scenario_user []], outages = []\<rparr>) \<and>
   POST_session scenario_ext scenario_secret 2000 (scenario_draws ''pepa'' ''2'')
     (scenario_request (Json (Some ''assertion-u1'')) None)
     \<lparr>docs = [scenario_user []], outages = []\<rparr> =
     ((json_response 200 True)\<lparr>r_user := Some (view (scenario_user [])),
         set_cookie := session_cookie (other_token 2000)\<rparr>,
      relogin_store) \<and>
   scenario_token 0 \<noteq> other_token 2000 \<and>
   map tokenHash (concat (map sessions (docs relogin_store))) =
     [bcrypt_hash scenario_ext (first72 (other_token 2000)) ''pepa''] \<and>
   verifyJWT scenario_secret 3000 (scenario_token 0) = Some (scenario_body 0) \<and>
   claim (scenario_body 0) ''uid'' = Some scenario_uid \<and>
   validateUserSession scenario_ext 3000 (Some scenario_uid) (scenario_token 0) relogin_store =
     (Inr True, relogin_store) \<and>
   GET_me scenario_ext scenario_secret 3000
     (scenario_request NotJson (Some (scenario_token 0))) relogin_store =
     (\<lparr>status = 200, success = True,
       r_user = Some \<lparr>v_uid = ''Zb4kQ9xLm2Tn7RwP0cVy5HdAe8Gf'', v_email = ''a@x.com'',
                       v_name = Some ''A'', v_provider = Google, v_photoURL = None,
                       v_lastSeen = Some 2000\<rparr>,
       r_error = None, r_details = None, r_message = None, fallback = False,
       r_source = Some ''database'', set_cookie = None\<rparr>,
      relogin_store)"
proof -
  have stored: "map tokenHash (concat (map sessions (docs relogin_store))) =
     [bcrypt_hash scenario_ext (first72 (other_token 2000)) ''pepa'']"
    by (simp add: relogin_store_def scenario_user_def other_session_def record_of_def)
  note uid = scenario_claim_uid
  have "GET_me scenario_ext scenario_secret 3000
     (scenario_request NotJson (Some (scenario_token 0))) relogin_store =
     ((json_response 200 True)\<lparr>r_user :=
          Some (me_view ((scenario_user [other_session])\<lparr>lastSeen := 2000\<rparr>)),
        r_source := Some ''database''\<rparr>, relogin_store)"
    by (simp add: GET_me_def me_by_cookie_def bearer_def scenario_request_def
          scenario_token_verifies uid scenario_validates scenario_found)
  then have me: "GET_me scenario_ext scenario_secret 3000
     (scenario_request NotJson (Some (scenario_token 0))) relogin_store =
     (\<lparr>status = 200, success = True,
       r_user = Some \<lparr>v_uid = ''Zb4kQ9xLm2Tn7RwP0cVy5HdAe8Gf'', v_email = ''a@x.com'',
                       v_name = Some ''A'', v_provider = Google, v_photoURL = None,
                       v_lastSeen = Some 2000\<rparr>,
       r_error = None, r_details = None, r_message = None, fallback = False,
       r_source = Some ''database'', set_cookie = None\<rparr>,
      relogin_store)"
    by (simp add: json_response_def me_view_def view_def scenario_user_def scenario_uid_def)
  from scenario_login scenario_logout scenario_second_login scenario_tokens_differ stored
    scenario_token_verifies uid scenario_validates me
  show ?thesis by blast
qed

subsection \<open>Creating a session when the identity provider rejects the assertion\<close>

lemma handleSessionFallback_eq:
  "handleSessionFallback E k now tok s =
     (case verifyJWT k now tok of
        None \<Rightarrow> (None, s)
      | Some payload \<Rightarrow>
          if \<not> store_answers 1 s then (None, after_calls 1 s)
          else (case findOne_uid (docs s) (claim payload ''uid'') of
                  None \<Rightarrow> (None, after_calls 1 s)
                | Some u \<Rightarrow>
                    if \<not> validateSession E now u tok then (None, after_calls 1 s)
                    else if \<not> store_answers 2 s then (None, after_calls 2 s)
                    else (Some ((json_response 200 True)\<lparr>r_user := Some (view u),
                                   fallback := True\<rparr>),
                          after_calls 2 s)))"
  by (auto simp: handleSessionFallback_def validateUserSession_eq findByUid_eq calls
      split: option.splits)

text \<open>
  What \<open>POST /api/auth/session\<close> does with an assertion that the identity provider
  rejects. When the request carries a session token that \<open>verifyJWT\<close> accepts and that
  \<open>validateSession\<close> matches with a stored, unexpired record of its user, and the store
  answers, the response is 200 with that user's fields and \<open>fallback: true\<close>; when
  \<open>validateSession\<close> matches no record, the response is 401 \<open>Authentication failed\<close>.
  The collection is not written.
\<close>

lemma POST_session_rejected_assertion:
  assumes "body req = Json (Some idToken)" and "idToken \<noteq> []"
    and "verifyIdToken E idToken = Inl err"
  shows "(\<forall>tok payload u.
            app_session req = Some tok \<and> verifyJWT k now tok = Some payload \<and>
            findOne_uid (docs s) (claim payload ''uid'') = Some u \<and>
            validateSession E now u tok \<and> store_answers 2 s \<longrightarrow>
            POST_session E k now r req s =
              (\<lparr>status = 200, success = True,
                r_user = Some \<lparr>v_uid = uid u, v_email = email u, v_name = name u,
                                v_provider = provider u, v_photoURL = photoURL u,
                                v_lastSeen = None\<rparr>,
                r_error = None, r_details = None, r_message = None, fallback = True,
                r_source = None, set_cookie = None\<rparr>,
               after_calls 2 s)) \<and>
         ((\<forall>tok payload u.
             app_session req = Some tok \<and> verifyJWT k now tok = Some payload \<and>
             findOne_uid (docs s) (claim payload ''uid'') = Some u \<longrightarrow>
             \<not> validateSession E now u tok) \<longrightarrow>
          fst (POST_session E k now r req s) =
            \<lparr>status = 401, success = False, r_user = None,
             r_error = Some ''Authentication failed'', r_details = Some err, r_message = None,
             fallback = False, r_source = None, set_cookie = None\<rparr>) \<and>
         docs (snd (POST_session E k now r req s)) = docs s"
proof -
  have p: "POST_session E k now r req s =
     (case app_session req of
        None \<Rightarrow> (authentication_failed err, s)
      | Some c \<Rightarrow>
          (case handleSessionFallback E k now c s of
             (Some fallbackResponse, s1) \<Rightarrow> (fallbackResponse, s1)
           | (None, s1) \<Rightarrow> (authentication_failed err, s1)))"
    using assms by (simp add: POST_session_def)
  show ?thesis
    unfolding p handleSessionFallback_eq
    by (auto simp: calls authentication_failed_def error_response_def json_response_def
          view_def split: option.splits)
qed

text \<open>
  C2. The fallback accepts a session token whose record was removed. On the store
  that the login, the logout with token 1 and the second login leave (its one record
  is token 2's), a \<open>POST /api/auth/session\<close> at clock 3000 with an assertion that the
  identity provider rejects and token 1 as the cookie answers 200 with the user's data
  and \<open>fallback: true\<close>, where the spec asks for \<open>AuthFailed\<close> (401): token 1 verifies,
  and \<open>validateSession\<close> matches it with the record of token 2, since the hash
  comparison reads the first 72 bytes of the token only.
\<close>

theorem fallback_accepts_revoked_token:
  "snd (POST_session scenario_ext scenario_secret 2000 (scenario_draws ''pepa'' ''2'')
          (scenario_request (Json (Some ''assertion-u1'')) None)
          (snd (POST_logout scenario_ext scenario_secret 1000
                  (scenario_request NotJson (Some (scenario_token 0)))
                  (snd (POST_session scenario_ext scenario_secret 0
                          (scenario_draws ''salt'' ''1'')
                          (scenario_request (Json (Some ''assertion-u1'')) None)
                          \<lparr>docs = [], outages = []\<rparr>))))) = relogin_store \<and>
   map (map tokenHash \<circ> sessions) (docs relogin_store) =
     [[bcrypt_hash scenario_ext (first72 (other_token 2000)) ''pepa'']] \<and>
   other_token 2000 \<noteq> scenario_token 0 \<and>
   verifyIdToken scenario_ext ''stale-assertion'' = Inl ''auth/argument-error'' \<and>
   POST_session scenario_ext scenario_secret 3000 (scenario_draws ''nacl'' ''3'')
     (scenario_request (Json (Some ''stale-assertion'')) (Some (scenario_token 0)))
     relogin_store =
     (\<lparr>status = 200, success = True,
       r_user = Some \<lparr>v_uid = ''Zb4kQ9xLm2Tn7RwP0cVy5HdAe8Gf'', v_email = ''a@x.com'',
                       v_name = Some ''A'', v_provider = Google, v_photoURL = None,
                       v_lastSeen = None\<rparr>,
       r_error = None, r_details = None, r_message = None, fallback = True,
       r_source = None, set_cookie = None\<rparr>,
      relogin_store)"
proof -
  have history: "snd (POST_session scenario_ext scenario_secret 2000
          (scenario_draws ''pepa'' ''2'')
          (scenario_request (Json (Some ''assertion-u1'')) None)
          (snd (POST_logout scenario_ext scenario_secret 1000
                  (scenario_request NotJson (Some (scenario_token 0)))
                  (snd (POST_session scenario_ext scenario_secret 0
                          (scenario_draws ''salt'' ''1'')
                          (scenario_request (Json (Some ''assertion-u1'')) None)
                          \<lparr>docs = [], outages = []\<rparr>))))) = relogin_store"
    by (simp add: scenario_login scenario_logout scenario_second_login)
  have stored: "map (map tokenHash \<circ> sessions) (docs relogin_store) =
     [[bcrypt_hash scenario_ext (first72 (other_token 2000)) ''pepa'']]"
    by (simp add: relogin_store_def scenario_user_def other_session_def record_of_def)
  have differ: "other_token 2000 \<noteq> scenario_token 0"
    by (simp add: scenario_defs)
  have stale: "verifyIdToken scenario_ext ''stale-assertion'' = Inl ''auth/argument-error''"
    by (simp add: verifyIdToken_def scenario_ext_def)
  have "POST_session scenario_ext scenario_secret 3000 (scenario_draws ''nacl'' ''3'')
     (scenario_request (Json (Some ''stale-assertion'')) (Some (scenario_token 0)))
     relogin_store =
     ((json_response 200 True)\<lparr>r_user :=
          Some (view ((scenario_user [other_session])\<lparr>lastSeen := 2000\<rparr>)),
        fallback := True\<rparr>, relogin_store)"
    by (simp add: POST_session_def handleSessionFallback_def scenario_request_def stale
          scenario_token_verifies scenario_claim_uid scenario_validates scenario_found)
  then have "POST_session scenario_ext scenario_secret 3000 (scenario_draws ''nacl'' ''3'')
     (scenario_request (Json (Some ''stale-assertion'')) (Some (scenario_token 0)))
     relogin_store =
     (\<lparr>status = 200, success = True,
       r_user = Some \<lparr>v_uid = ''Zb4kQ9xLm2Tn7RwP0cVy5HdAe8Gf'', v_email = ''a@x.com'',
                       v_name = Some ''A'', v_provider = Google, v_photoURL = None,
                       v_lastSeen = None\<rparr>,
       r_error = None, r_details = None, r_message = None, fallback = True,
       r_source = None, set_cookie = None\<rparr>,
      relogin_store)"
    by (simp add: json_response_def view_def scenario_user_def scenario_uid_def)
  with history stored differ stale show ?thesis by blast
qed

subsection \<open>Refreshing a session\<close>

text \<open>
  C8. \<open>POST /api/auth/refresh-session\<close> with an assertion that fails verification
  answers 401 and writes nothing, whatever session cookie the request carries. With an
  assertion that verifies, a removal of the old token's record that throws (the old
  token's user is not found, or the store does not answer) is swallowed: when the
  signing secret is not empty, the assertion's user is stored and the store answers the
  next two calls, the route signs a new token, appends its record to the user's
  sessions (after the expired ones are swept), and answers 200 with the new cookie.
\<close>

theorem refresh_needs_assertion_and_swallows_removal_failure:
  assumes "body req = Json (Some idToken)" and "idToken \<noteq> []"
  shows "(\<forall>err. verifyIdToken E idToken = Inl err \<longrightarrow>
            POST_refresh_session E k now r req s =
              ((error_response 401 ''Invalid ID token'')\<lparr>r_details := Some err\<rparr>, s)) \<and>
         (\<forall>decoded old oldPayload e s1 u.
            verifyIdToken E idToken = Inr decoded \<and> app_session req = Some old \<and>
            verifyJWT k now old = Some oldPayload \<and>
            removeUserSession E (claim oldPayload ''uid'') old s = (Inl e, s1) \<and>
            k \<noteq> [] \<and> store_answers 2 s1 \<and>
            findOne_uid (docs s) (Some (t_uid decoded)) = Some u \<longrightarrow>
            (\<exists>sessionToken u'.
               signJWT k now
                 \<lparr>p_uid = t_uid decoded,
                   p_email = (case truthy (t_email decoded) of Some e \<Rightarrow> e | None \<Rightarrow> []),
                   p_name = None, p_provider = None, p_photoURL = None,
                   p_sessionId = generateSessionId r\<rparr> = Some sessionToken \<and>
               u' = u\<lparr>sessions :=
                        filter (\<lambda>session. now < expiresAt session) (sessions u) @
                        [\<lparr>tokenHash = bcrypt_hash E (first72 sessionToken) (salt r), issuedAt = now,
                          expiresAt = getJWTExpiration now,
                          userAgent = truthy (user_agent req),
                          ip = or_else (x_forwarded_for req) (truthy (x_real_ip req))\<rparr>],
                      lastSeen := now\<rparr> \<and>
               POST_refresh_session E k now r req s =
                 ((json_response 200 True)\<lparr>r_user := Some (view u),
                     set_cookie := session_cookie sessionToken\<rparr>,
                  (after_calls 3 s)\<lparr>docs := save u' (docs s)\<rparr>) \<and>
               findOne_uid (save u' (docs s)) (Some (t_uid decoded)) = Some u'))"
proof (intro conjI allI impI)
  fix err assume "verifyIdToken E idToken = Inl err"
  with assms show "POST_refresh_session E k now r req s =
              ((error_response 401 ''Invalid ID token'')\<lparr>r_details := Some err\<rparr>, s)"
    by (simp add: POST_refresh_session_def)
next
  fix decoded old oldPayload e s1 u
  assume a: "verifyIdToken E idToken = Inr decoded \<and> app_session req = Some old \<and>
            verifyJWT k now old = Some oldPayload \<and>
            removeUserSession E (claim oldPayload ''uid'') old s = (Inl e, s1) \<and>
            k \<noteq> [] \<and> store_answers 2 s1 \<and>
            findOne_uid (docs s) (Some (t_uid decoded)) = Some u"
  let ?p = "\<lparr>p_uid = t_uid decoded,
             p_email = (case truthy (t_email decoded) of Some e \<Rightarrow> e | None \<Rightarrow> []),
             p_name = None, p_provider = None, p_photoURL = None,
             p_sessionId = generateSessionId r\<rparr>"
  from a have "k \<noteq> []" by simp
  then obtain sessionToken where tok: "signJWT k now ?p = Some sessionToken"
    by (simp add: signJWT_token)
  define u' where "u' = u\<lparr>sessions :=
                        filter (\<lambda>session. now < expiresAt session) (sessions u) @
                        [\<lparr>tokenHash = bcrypt_hash E (first72 sessionToken) (salt r), issuedAt = now,
                          expiresAt = getJWTExpiration now,
                          userAgent = truthy (user_agent req),
                          ip = or_else (x_forwarded_for req) (truthy (x_real_ip req))\<rparr>],
                      lastSeen := now\<rparr>"
  from a have s1: "s1 = after_calls (Suc 0) s" by (auto dest: removeUserSession_fails)
  with a have rem: "remove_old_session E k now req s = after_calls (Suc 0) s"
    by (simp add: remove_old_session_def)
  from a have found: "findOne_uid (save u' (docs s)) (Some (t_uid decoded)) = Some u'"
    by (intro findOne_uid_save) (auto simp: u'_def)
  from a s1 have ans: "store_answers (Suc 0) (after_calls (Suc 0) s)"
      "store_answers (Suc 0) (after_calls (Suc (Suc 0)) s)"
    by (simp_all add: calls)
  have "POST_refresh_session E k now r req s =
                 ((json_response 200 True)\<lparr>r_user := Some (view u),
                     set_cookie := session_cookie sessionToken\<rparr>,
                  (after_calls 3 s)\<lparr>docs := save u' (docs s)\<rparr>)"
    using assms a tok ans found
    by (simp add: POST_refresh_session_def rem Let_def addUserSession_eq findByUid_eq
          addSession_eq view_def numeral_3_eq_3 u'_def)
  with tok found u'_def
  show "\<exists>sessionToken u'.
               signJWT k now ?p = Some sessionToken \<and>
               u' = u\<lparr>sessions :=
                        filter (\<lambda>session. now < expiresAt session) (sessions u) @
                        [\<lparr>tokenHash = bcrypt_hash E (first72 sessionToken) (salt r), issuedAt = now,
                          expiresAt = getJWTExpiration now,
                          userAgent = truthy (user_agent req),
                          ip = or_else (x_forwarded_for req) (truthy (x_real_ip req))\<rparr>],
                      lastSeen := now\<rparr> \<and>
               POST_refresh_session E k now r req s =
                 ((json_response 200 True)\<lparr>r_user := Some (view u),
                     set_cookie := session_cookie sessionToken\<rparr>,
                  (after_calls 3 s)\<lparr>docs := save u' (docs s)\<rparr>) \<and>
               findOne_uid (save u' (docs s)) (Some (t_uid decoded)) = Some u'"
    by blast
qed

theorem refresh_needs_assertion_and_swallows_removal_failure_witness:
  "removeUserSession scenario_ext (claim (scenario_body 0) ''uid'') (scenario_token 0)
     \<lparr>docs = [scenario_user [scenario_session]], outages = [True]\<rparr> =
     (Inl StoreUnavailable, \<lparr>docs = [scenario_user [scenario_session]], outages = []\<rparr>) \<and>
   POST_refresh_session scenario_ext scenario_secret 5000 (scenario_draws ''nacl'' ''3'')
     (scenario_request (Json (Some ''assertion-u1'')) (Some (scenario_token 0)))
     \<lparr>docs = [scenario_user [scenario_session]], outages = [True]\<rparr> =
     ((json_response 200 True)\<lparr>r_user := Some (view (scenario_user [scenario_session])),
         set_cookie := session_cookie
           (token_of \<lparr>p_uid = scenario_uid, p_email = ''A@x.com'', p_name = None,
                       p_provider = None, p_photoURL = None, p_sessionId = ''session_3''\<rparr>
              5000)\<rparr>,
      \<lparr>docs = [(scenario_user
                   [scenario_session,
                    \<lparr>tokenHash =
                       bcrypt_hash scenario_ext
                         (first72 (token_of \<lparr>p_uid = scenario_uid, p_email = ''A@x.com'',
                                              p_name = None, p_provider = None,
                                              p_photoURL = None,
                                              p_sessionId = ''session_3''\<rparr> 5000)) ''nacl'',
                      issuedAt = 5000, expiresAt = 604805000,
                      userAgent = None, ip = None\<rparr>])\<lparr>lastSeen := 5000\<rparr>],
       outages = []\<rparr>) \<and>
   POST_refresh_session scenario_ext scenario_secret 5000 (scenario_draws ''nacl'' ''3'')
     (scenario_request (Json (Some ''stale-assertion'')) (Some (scenario_token 0)))
     \<lparr>docs = [scenario_user [scenario_session]], outages = []\<rparr> =
     ((error_response 401 ''Invalid ID token'')\<lparr>r_details := Some ''auth/argument-error''\<rparr>,
      \<lparr>docs = [scenario_user [scenario_session]], outages = []\<rparr>)"
proof -
  let ?req = "scenario_request (Json (Some ''assertion-u1'')) (Some (scenario_token 0))"
  let ?stale = "scenario_request (Json (Some ''stale-assertion'')) (Some (scenario_token 0))"
  let ?s = "\<lparr>docs = [scenario_user [scenario_session]], outages = [True]\<rparr>"
  let ?r = "scenario_draws ''nacl'' ''3''"
  let ?decoded = "\<lparr>t_uid = scenario_uid, t_email = Some ''A@x.com'', t_name = None,
                   t_picture = None, sign_in_provider = Some ''google.com''\<rparr>"
  let ?p = "\<lparr>p_uid = scenario_uid, p_email = ''A@x.com'', p_name = None, p_provider = None,
             p_photoURL = None, p_sessionId = ''session_3''\<rparr>"
  have h1: "body ?req = Json (Some ''assertion-u1'')" "body ?stale = Json (Some ''stale-assertion'')"
    by (simp_all add: scenario_request_def)
  have h2: "''assertion-u1'' \<noteq> []" "''stale-assertion'' \<noteq> []"
    by simp_all
  have stale: "verifyIdToken scenario_ext ''stale-assertion'' = Inl ''auth/argument-error''"
    by (simp add: verifyIdToken_def scenario_ext_def)
  have verified: "verifyJWT scenario_secret 5000 (scenario_token 0) = Some (scenario_body 0)"
    by (simp add: scenario_defs route_defs)
  have uid: "claim (scenario_body 0) ''uid'' = Some scenario_uid"
    by (simp add: scenario_defs)
  have removal: "removeUserSession scenario_ext (claim (scenario_body 0) ''uid'') (scenario_token 0) ?s =
     (Inl StoreUnavailable, \<lparr>docs = [scenario_user [scenario_session]], outages = []\<rparr>)"
    by (simp add: uid removeUserSession_def ensureConnection_def)
  have a: "verifyIdToken scenario_ext ''assertion-u1'' = Inr ?decoded \<and>
           app_session ?req = Some (scenario_token 0) \<and>
           verifyJWT scenario_secret 5000 (scenario_token 0) = Some (scenario_body 0) \<and>
           removeUserSession scenario_ext (claim (scenario_body 0) ''uid'') (scenario_token 0) ?s =
             (Inl StoreUnavailable, \<lparr>docs = [scenario_user [scenario_session]], outages = []\<rparr>) \<and>
           scenario_secret \<noteq> [] \<and>
           store_answers 2 \<lparr>docs = [scenario_user [scenario_session]], outages = []\<rparr> \<and>
           findOne_uid (docs ?s) (Some (t_uid ?decoded)) = Some (scenario_user [scenario_session])"
    using removal verified
    by (simp add: verifyIdToken_def scenario_ext_def scenario_request_def scenario_secret_def
          store_answers_def findOne_uid_def scenario_user_def)
  have signed: "signJWT scenario_secret 5000
                 \<lparr>p_uid = t_uid ?decoded,
                   p_email = (case truthy (t_email ?decoded) of Some e \<Rightarrow> e | None \<Rightarrow> []),
                   p_name = None, p_provider = None, p_photoURL = None,
                   p_sessionId = generateSessionId ?r\<rparr> = Some (token_of ?p 5000)"
    by (simp add: scenario_defs route_defs Let_def)
  note t = refresh_needs_assertion_and_swallows_removal_failure
  from t [OF h1(1) h2(1), of scenario_ext scenario_secret 5000 ?r ?s] a signed
  have first: "POST_refresh_session scenario_ext scenario_secret 5000 ?r ?req ?s =
     ((json_response 200 True)\<lparr>r_user := Some (view (scenario_user [scenario_session])),
         set_cookie := session_cookie (token_of ?p 5000)\<rparr>,
      (after_calls 3 ?s)\<lparr>docs :=
         save ((scenario_user [scenario_session])\<lparr>sessions :=
                 filter (\<lambda>session. 5000 < expiresAt session)
                   (sessions (scenario_user [scenario_session])) @
                 [\<lparr>tokenHash = bcrypt_hash scenario_ext (first72 (token_of ?p 5000)) (salt ?r),
                   issuedAt = 5000, expiresAt = getJWTExpiration 5000,
                   userAgent = truthy (user_agent ?req),
                   ip = or_else (x_forwarded_for ?req) (truthy (x_real_ip ?req))\<rparr>],
                 lastSeen := 5000\<rparr>) (docs ?s)\<rparr>)"
    by fastforce
  from t [OF h1(2) h2(2), of scenario_ext scenario_secret 5000 ?r
            "\<lparr>docs = [scenario_user [scenario_session]], outages = []\<rparr>"] stale
  have second: "POST_refresh_session scenario_ext scenario_secret 5000 ?r ?stale
     \<lparr>docs = [scenario_user [scenario_session]], outages = []\<rparr> =
     ((error_response 401 ''Invalid ID token'')\<lparr>r_details := Some ''auth/argument-error''\<rparr>,
      \<lparr>docs = [scenario_user [scenario_session]], outages = []\<rparr>)"
    by blast
  show ?thesis
    unfolding first second
    using removal
    by (simp add: scenario_user_def scenario_session_def record_of_def scenario_draws_def
          scenario_request_def after_calls_def save_def getJWTExpiration_def
          JWT_EXPIRES_IN_def truthy_def or_else_def)
qed
section \<open>Properties of the reset request\<close>

lemma findByEmail_eq:
  "findByEmail e s =
     (if store_answers 1 s then Inr (findOne_email (docs s) (toLowerCase e))
      else Inl StoreUnavailable, after_calls 1 s)"
  by (simp add: findByEmail_def ensureConnection_eq)

lemmas reset_defs = createResetRequest_def findByEmail_def ensureConnection_def
  findOne_email_def toLowerCase_def lower_char_def generateResetToken_def jwt_sign_def
  registered_clash_def truthy_def reset_error_def

text \<open>
  The claim C6 as stated fails: in one and the same store, the request for an address
  with no user is answered with \<open>success: false\<close> and a message of its own, the
  request for a stored address with \<open>success: true\<close> and "email sent".
\<close>

theorem createResetRequest_reveals_unknown_email:
  "findOne_email (docs \<lparr>docs = [scenario_user []], outages = []\<rparr>) (toLowerCase ''nobody@x.com'') = None \<and>
   fst (createResetRequest scenario_ext scenario_secret 5000 ''nobody@x.com''
          \<lparr>docs = [scenario_user []], outages = []\<rparr>) =
     \<lparr>rr_success = False, rr_message = ''No account found with this email address''\<rparr> \<and>
   fst (createResetRequest scenario_ext scenario_secret 5000 ''A@x.com''
          \<lparr>docs = [scenario_user []], outages = []\<rparr>) =
     \<lparr>rr_success = True, rr_message = ''Password reset email sent successfully''\<rparr> \<and>
   fst (createResetRequest scenario_ext scenario_secret 5000 ''nobody@x.com''
          \<lparr>docs = [scenario_user []], outages = []\<rparr>) \<noteq>
   fst (createResetRequest scenario_ext scenario_secret 5000 ''A@x.com''
          \<lparr>docs = [scenario_user []], outages = []\<rparr>)"
  by (simp add: reset_defs scenario_defs Let_def)

text \<open>
  C6, amended. For an address that no stored user has, \<open>createResetRequest\<close> on a
  store that answers returns \<open>success: false\<close> with the message "No account found
  with this email address" (the generic error when the store does not answer), and this
  is never the "email sent" response: the caller learns that there is no account.
\<close>

theorem createResetRequest_unknown_email:
  assumes "\<forall>d\<in>set (docs s). email d \<noteq> toLowerCase e"
  shows "createResetRequest E k now e s =
           (if store_answers 1 s
            then \<lparr>rr_success = False, rr_message = ''No account found with this email address''\<rparr>
            else reset_error, after_calls 1 s) \<and>
         fst (createResetRequest E k now e s) \<noteq>
           \<lparr>rr_success = True, rr_message = ''Password reset email sent successfully''\<rparr>"
proof -
  from assms have "findOne_email (docs s) (toLowerCase e) = None"
    by (auto simp: findOne_email_def find_None_iff)
  then show ?thesis
    by (simp add: createResetRequest_def findByEmail_eq reset_error_def)
qed

theorem createResetRequest_unknown_email_witness:
  "map email (docs \<lparr>docs = [scenario_user []], outages = []\<rparr>) = [''a@x.com''] \<and>
   toLowerCase ''Nobody@x.com'' = ''nobody@x.com'' \<and>
   createResetRequest scenario_ext scenario_secret 5000 ''Nobody@x.com''
     \<lparr>docs = [scenario_user []], outages = []\<rparr> =
     (\<lparr>rr_success = False, rr_message = ''No account found with this email address''\<rparr>,
      \<lparr>docs = [scenario_user []], outages = []\<rparr>)"
proof -
  have l: "toLowerCase ''Nobody@x.com'' = ''nobody@x.com''"
    by (simp add: toLowerCase_def lower_char_def)
  have h: "\<forall>d\<in>set (docs \<lparr>docs = [scenario_user []], outages = []\<rparr>).
             email d \<noteq> toLowerCase ''Nobody@x.com''"
    by (simp add: l scenario_user_def)
  from createResetRequest_unknown_email [OF h, of scenario_ext scenario_secret 5000] l
  show ?thesis
    by (simp add: store_answers_def after_calls_def scenario_user_def)
qed

text \<open>The other side: a stored address whose mail goes out gets the "email sent" response.\<close>

lemma createResetRequest_known_email:
  assumes "findOne_email (docs s) (toLowerCase e) = Some u" and "store_answers 1 s"
    and "generateResetToken k now (oid u) (email u) = Some resetToken"
    and "sendPasswordResetEmail E (email u) resetToken
           (case truthy (name u) of Some n \<Rightarrow> n | None \<Rightarrow> email u)"
  shows "fst (createResetRequest E k now e s) =
           \<lparr>rr_success = True, rr_message = ''Password reset email sent successfully''\<rparr>"
  using assms by (simp add: createResetRequest_def findByEmail_eq Let_def)

section \<open>Properties of the environment validation\<close>

lemma issue_raised:
  "(k, r) \<in> set envSchema \<Longrightarrow> parse_field is_url r (penv k) = Inl msg \<Longrightarrow>
   (k, msg) \<in> set (issues is_url penv)"
  by (force simp: issues_def)

lemma JWT_SECRET_rule:
  "(''JWT_SECRET'', Min 32 ''JWT secret must be at least 32 characters'') \<in> set envSchema"
  by (simp add: envSchema_def)

lemma map_of_defaults_gen:
  "distinct (map fst ds) \<Longrightarrow>
   map_of (concat (map (\<lambda>(k, d). case or_else (penv k) d of Some x \<Rightarrow> [(k, x)] | None \<Rightarrow> []) ds)) k =
     (case map_of ds k of None \<Rightarrow> None | Some d \<Rightarrow> or_else (penv k) d)"
proof (induction ds)
  case Nil
  then show ?case by simp
next
  case (Cons a ds)
  obtain k' d' where a: "a = (k', d')" by (cases a)
  from Cons.prems a have "map_of ds k' = None" by (simp add: map_of_eq_None_iff)
  with Cons a show ?case
    by (auto split: option.splits)
qed

lemma map_of_getDefaultEnv:
  "map_of (getDefaultEnv penv) k =
     (case map_of defaults k of None \<Rightarrow> None | Some d \<Rightarrow> or_else (penv k) d)"
  unfolding getDefaultEnv_def
  by (rule map_of_defaults_gen) (simp add: defaults_def)

lemmas env_defs = scenario_process_env_def validateEnv_def isBuildTime_def is_set_def
  envSchema_parse_def issues_def parsed_def envSchema_def parse_field_def truthy_def
  or_else_def env_get_def

text \<open>
  The claim C5 as stated fails. In development, an environment whose only defect is a
  five-character secret passes \<open>validateEnv\<close>: the failed validation is answered
  with a warning and the defaults, and \<open>env.JWT_SECRET\<close> is that secret.
\<close>

theorem validateEnv_keeps_short_secret:
  "scenario_process_env ''development'' ''short'' ''JWT_SECRET'' = Some ''short'' \<and>
   length ''short'' < (32::nat) \<and>
   issues (\<lambda>_. True) (scenario_process_env ''development'' ''short'') =
     [(''JWT_SECRET'', ''JWT secret must be at least 32 characters'')] \<and>
   validateEnv (\<lambda>_. True) (scenario_process_env ''development'' ''short'') None =
     (Inr (getDefaultEnv (scenario_process_env ''development'' ''short'')),
      Some (getDefaultEnv (scenario_process_env ''development'' ''short''))) \<and>
   env_get (\<lambda>_. True) (scenario_process_env ''development'' ''short'') None ''JWT_SECRET'' =
     Inr (Some ''short'')"
proof -
  have k: "scenario_process_env ''development'' ''short'' ''JWT_SECRET'' = Some ''short''"
    by (simp add: scenario_process_env_def)
  have i: "issues (\<lambda>_. True) (scenario_process_env ''development'' ''short'') =
     [(''JWT_SECRET'', ''JWT secret must be at least 32 characters'')]"
    by (simp add: issues_def envSchema_def parse_field_def scenario_process_env_def)
  have dev: "validateEnv (\<lambda>_. True) (scenario_process_env ''development'' ''short'') None =
     (Inr (getDefaultEnv (scenario_process_env ''development'' ''short'')),
      Some (getDefaultEnv (scenario_process_env ''development'' ''short'')))"
    by (simp add: validateEnv_def isBuildTime_def envSchema_parse_def i)
       (simp add: scenario_process_env_def)
  show ?thesis
    using k i
    by (simp add: env_get_def dev map_of_getDefaultEnv defaults_def or_else_def truthy_def)
qed

text \<open>
  C5, amended. Let the configured signing secret be shorter than 32 characters and
  nothing be cached. When \<open>NODE_ENV\<close> is \<open>production\<close> and \<open>VERCEL\<close> or
  \<open>RAILWAY_ENVIRONMENT\<close> is set, \<open>validateEnv\<close> throws, and the secret is among the
  issues it reports. When \<open>NODE_ENV\<close> is not \<open>production\<close>, it does not throw: it
  returns the defaults for development, in which the configured secret is kept unless
  it is empty. (Nothing is said of \<open>production\<close> with neither variable set.)
\<close>

theorem validateEnv_short_secret:
  assumes "penv ''JWT_SECRET'' = Some k" and "length k < 32"
  shows "(penv ''NODE_ENV'' = Some ''production'' \<and>
            (is_set penv ''VERCEL'' \<or> is_set penv ''RAILWAY_ENVIRONMENT'') \<longrightarrow>
          validateEnv is_url penv None = (Inl (EnvValidationFailed (issues is_url penv)), None) \<and>
          (''JWT_SECRET'', ''JWT secret must be at least 32 characters'') \<in> set (issues is_url penv)) \<and>
         (penv ''NODE_ENV'' \<noteq> Some ''production'' \<longrightarrow>
          validateEnv is_url penv None = (Inr (getDefaultEnv penv), Some (getDefaultEnv penv)) \<and>
          map_of (getDefaultEnv penv) ''JWT_SECRET'' =
            Some (if k = [] then ''development-jwt-secret-at-least-32-characters-long-for-build''
                  else k))"
proof -
  have "parse_field is_url (Min 32 ''JWT secret must be at least 32 characters'')
          (penv ''JWT_SECRET'') = Inl ''JWT secret must be at least 32 characters''"
    using assms by (simp add: parse_field_def)
  with JWT_SECRET_rule
  have i: "(''JWT_SECRET'', ''JWT secret must be at least 32 characters'') \<in> set (issues is_url penv)"
    by (rule issue_raised)
  then have ne: "issues is_url penv \<noteq> []" by auto
  have d: "map_of (getDefaultEnv penv) ''JWT_SECRET'' =
            Some (if k = [] then ''development-jwt-secret-at-least-32-characters-long-for-build''
                  else k)"
    using assms(1) by (simp add: map_of_getDefaultEnv defaults_def or_else_def truthy_def)
  show ?thesis
    using i ne d
    by (auto simp: validateEnv_def isBuildTime_def envSchema_parse_def)
qed

theorem validateEnv_short_secret_witness:
  "((scenario_process_env ''production'' ''short'')(''VERCEL'' \<mapsto> ''1'')) ''JWT_SECRET'' = Some ''short'' \<and>
   length ''short'' < (32::nat) \<and>
   validateEnv (\<lambda>_. True) ((scenario_process_env ''production'' ''short'')(''VERCEL'' \<mapsto> ''1'')) None =
     (Inl (EnvValidationFailed [(''JWT_SECRET'', ''JWT secret must be at least 32 characters'')]),
      None) \<and>
   scenario_process_env ''test'' ''short'' ''JWT_SECRET'' = Some ''short'' \<and>
   validateEnv (\<lambda>_. True) (scenario_process_env ''test'' ''short'') None =
     (Inr (getDefaultEnv (scenario_process_env ''test'' ''short'')),
      Some (getDefaultEnv (scenario_process_env ''test'' ''short''))) \<and>
   map_of (getDefaultEnv (scenario_process_env ''test'' ''short'')) ''JWT_SECRET'' = Some ''short''"
proof -
  let ?penv = "(scenario_process_env ''production'' ''short'')(''VERCEL'' \<mapsto> ''1'')"
  let ?test = "scenario_process_env ''test'' ''short''"
  have h1: "?penv ''JWT_SECRET'' = Some ''short''" "?test ''JWT_SECRET'' = Some ''short''"
    by (simp_all add: scenario_process_env_def)
  have h2: "length ''short'' < (32::nat)"
    by simp
  have c: "?penv ''NODE_ENV'' = Some ''production'' \<and>
           (is_set ?penv ''VERCEL'' \<or> is_set ?penv ''RAILWAY_ENVIRONMENT'')"
    by (simp add: scenario_process_env_def is_set_def truthy_def)
  have c': "?test ''NODE_ENV'' \<noteq> Some ''production''"
    by (simp add: scenario_process_env_def)
  have i: "issues (\<lambda>_. True) ?penv =
           [(''JWT_SECRET'', ''JWT secret must be at least 32 characters'')]"
    by (simp add: issues_def envSchema_def parse_field_def scenario_process_env_def)
  note t = validateEnv_short_secret
  from t [of ?penv "''short''" "\<lambda>_. True", OF h1(1) h2] c
  have first: "validateEnv (\<lambda>_. True) ?penv None =
          (Inl (EnvValidationFailed (issues (\<lambda>_. True) ?penv)), None)"
    by blast
  from t [of ?test "''short''" "\<lambda>_. True", OF h1(2) h2] c'
  have second: "validateEnv (\<lambda>_. True) ?test None =
          (Inr (getDefaultEnv ?test), Some (getDefaultEnv ?test)) \<and>
        map_of (getDefaultEnv ?test) ''JWT_SECRET'' = Some ''short''"
    by simp
  from first second h1 h2 i show ?thesis
    by simp
qed
end
